theory Spec2Isabelle
  imports Complex_Main "HOL-Library.Word" "HOL-Library.Log_Nat"
begin

section \<open>Health sensor data analysis: the embedded program\<close>

text \<open>
  The program is \<^verbatim>\<open>analyze_health_data.py\<close>: it loads a table of sensor readings with
  NumPy, computes three column means (\<^verbatim>\<open>calculate_statistics\<close>), counts readings above
  fixed thresholds (\<^verbatim>\<open>find_abnormal_readings\<close>), renders a text report
  (\<^verbatim>\<open>generate_report\<close>) and writes it to a file (\<^verbatim>\<open>save_report\<close>).
\<close>

subsection \<open>Float values (IEEE binary64)\<close>

text \<open>
  A Python \<^verbatim>\<open>float\<close> and a NumPy \<^verbatim>\<open>float64\<close> are IEEE binary64 values. A finite
  value other than the negative zero is represented by the rational number it denotes
  (\<open>Fin 0\<close> is \<open>+0.0\<close>); \<open>NegZero\<close> is \<open>-0.0\<close>.
\<close>

datatype float64 = Fin rat | NegZero | PInf | NInf | NaN

text \<open>Rounding of a rational to the nearest integer, ties to the even one.\<close>

definition round_half_even :: "rat \<Rightarrow> int" where
  "round_half_even q =
     (let f = \<lfloor>q\<rfloor>; d = q - of_int f
      in if d < 1 / 2 then f else if 1 / 2 < d then f + 1 else if even f then f else f + 1)"

text \<open>The binary exponent of a positive rational: \<open>2 powi ilog2 q \<le> q < 2 powi (ilog2 q + 1)\<close>.\<close>

definition ilog2 :: "rat \<Rightarrow> int" where
  "ilog2 q =
     (case quotient_of q of (a, b) \<Rightarrow>
        let d = bitlen a - bitlen b in if 2 powi d \<le> q then d else d - 1)"

text \<open>
  Round-to-nearest-even into binary64: 53 significant bits, the exponent of the last bit
  no smaller than \<open>-1074\<close> (subnormal numbers), overflow to an infinity, and a negative
  number that rounds to zero gives the negative zero.
\<close>

definition f64_round :: "rat \<Rightarrow> float64" where
  "f64_round q =
     (if q = 0 then Fin 0
      else let e = max (ilog2 \<bar>q\<bar> - 52) (- 1074);
               r = of_int (round_half_even (q / 2 powi e)) * 2 powi e
           in if 2 ^ 1024 \<le> r then PInf else if r \<le> - (2 ^ 1024) then NInf
              else if r = 0 \<and> q < 0 then NegZero else Fin r)"

text \<open>The value and the sign bit of a float, and the signed zeros and infinities.\<close>

fun fval :: "float64 \<Rightarrow> rat" where
  "fval (Fin q) = q"
| "fval _ = 0"

fun fneg :: "float64 \<Rightarrow> bool" where
  "fneg (Fin q) = (q < 0)"
| "fneg NegZero = True"
| "fneg NInf = True"
| "fneg _ = False"

fun is_zero :: "float64 \<Rightarrow> bool" where
  "is_zero (Fin q) = (q = 0)"
| "is_zero NegZero = True"
| "is_zero _ = False"

fun is_inf :: "float64 \<Rightarrow> bool" where
  "is_inf PInf = True"
| "is_inf NInf = True"
| "is_inf _ = False"

definition signed_zero :: "bool \<Rightarrow> float64" where
  "signed_zero neg = (if neg then NegZero else Fin 0)"

definition signed_inf :: "bool \<Rightarrow> float64" where
  "signed_inf neg = (if neg then NInf else PInf)"

text \<open>
  Float addition: an exact sum of zero is \<open>+0.0\<close> unless both operands are \<open>-0.0\<close>;
  infinities of opposite sign give NaN.
\<close>

definition f64_add :: "float64 \<Rightarrow> float64 \<Rightarrow> float64" where
  "f64_add a b =
     (if a = NaN \<or> b = NaN then NaN
      else if is_inf a then (if is_inf b \<and> a \<noteq> b then NaN else a)
      else if is_inf b then b
      else if fval a + fval b = 0 then (if a = NegZero \<and> b = NegZero then NegZero else Fin 0)
      else f64_round (fval a + fval b))"

text \<open>
  Float division as NumPy's \<^verbatim>\<open>true_divide\<close> computes it (a warning, never an exception):
  \<open>0 / 0\<close> and \<open>inf / inf\<close> are NaN, a nonzero value over a zero is an infinity, and the
  sign of a zero or an infinity is the exclusive or of the signs.
\<close>

definition f64_div :: "float64 \<Rightarrow> float64 \<Rightarrow> float64" where
  "f64_div a b =
     (if a = NaN \<or> b = NaN then NaN
      else if is_inf a then (if is_inf b then NaN else signed_inf (fneg a \<noteq> fneg b))
      else if is_inf b then signed_zero (fneg a \<noteq> fneg b)
      else if is_zero b then (if is_zero a then NaN else signed_inf (fneg a \<noteq> fneg b))
      else if is_zero a then signed_zero (fneg a \<noteq> fneg b)
      else f64_round (fval a / fval b))"

text \<open>The conversion of an integer to float64.\<close>

definition f64_of_int :: "int \<Rightarrow> float64" where
  "f64_of_int i = f64_round (of_int i)"

subsection \<open>The table\<close>

text \<open>
  \<^verbatim>\<open>load_data\<close> reads the CSV file into a NumPy structured array with the dtype
  \<^verbatim>\<open>[('patient_id', 'U10'), ('timestamp', 'U20'), ('heart_rate', 'i4'),
  ('blood_pressure_systolic', 'i4'), ('blood_pressure_diastolic', 'i4'),
  ('temperature', 'f4'), ('glucose_level', 'i4'), ('sensor_id', 'U10')]\<close>.
  An \<^verbatim>\<open>i4\<close> field is a signed 32-bit integer, read with \<open>sint\<close>. The
  \<^verbatim>\<open>f4\<close> values are a subset of the binary64 values; no function reads that column.
\<close>

record reading =
  patient_id :: string
  timestamp :: string
  heart_rate :: "32 word"
  blood_pressure_systolic :: "32 word"
  blood_pressure_diastolic :: "32 word"
  temperature :: float64
  glucose_level :: "32 word"
  sensor_id :: string

type_synonym table = "reading list"

text \<open>
  The array itself is one-dimensional, or zero-dimensional: \<^verbatim>\<open>np.genfromtxt\<close> ends with
  \<^verbatim>\<open>np.squeeze\<close>, so for a file with exactly one data row \<^verbatim>\<open>load_data\<close> returns a 0-d
  array that holds the one record. \<open>genfromtxt_squeeze\<close> is the array returned for the
  rows parsed from the file.
\<close>

datatype ndarray = Array0 reading | Array1 table

definition genfromtxt_squeeze :: "table \<Rightarrow> ndarray" where
  "genfromtxt_squeeze parsed = (case parsed of [r] \<Rightarrow> Array0 r | _ \<Rightarrow> Array1 parsed)"


subsection \<open>NumPy reductions on a column\<close>

text \<open>
  \<^verbatim>\<open>arr.mean()\<close> on an integer column converts the elements to float64, adds them up in
  a float64 accumulator (\<^verbatim>\<open>umr_sum(arr, dtype=float64)\<close>) and divides by the number of
  rows, converted to float64 as well. Each addition is rounded. The model adds from left
  to right, starting from \<open>+0.0\<close>; NumPy groups the additions in blocks and in pairs.
  Whatever the grouping, an addition is exact as long as its result is an integer of
  magnitude at most \<open>2 ^ 53\<close>, so every grouping gives the exact sum for a column of at
  most \<open>2 ^ 22\<close> rows, and for \<open>2 ^ 22 + 1\<close> rows every grouping rounds the exact sum once,
  in its last addition. The properties below that depend on the value of the sum are
  stated for these sizes.
\<close>

definition np_add_reduce :: "32 word list \<Rightarrow> float64" where
  "np_add_reduce xs = fold (\<lambda>x acc. f64_add acc (f64_of_int (sint x))) xs (Fin 0)"

definition np_mean :: "32 word list \<Rightarrow> float64" where
  "np_mean xs = f64_div (np_add_reduce xs) (f64_of_int (int (length xs)))"

text \<open>\<^verbatim>\<open>arr > c\<close> builds a new boolean array; \<^verbatim>\<open>.sum()\<close> counts its true entries.\<close>

definition np_greater :: "32 word list \<Rightarrow> int \<Rightarrow> bool list" where
  "np_greater xs c = map (\<lambda>x. c < sint x) xs"

definition np_sum_bool :: "bool list \<Rightarrow> int" where
  "np_sum_bool bs = fold (\<lambda>b acc. acc + (if b then 1 else 0)) bs 0"

subsection \<open>Statistics and threshold counts\<close>

definition calculate_statistics :: "table \<Rightarrow> (string \<rightharpoonup> float64)" where
  "calculate_statistics data =
     (let avg_heart_rate = np_mean (map heart_rate data);
          avg_systolic_bp = np_mean (map blood_pressure_systolic data);
          avg_glucose = np_mean (map glucose_level data)
      in [''avg_heart_rate'' \<mapsto> avg_heart_rate,
          ''avg_systolic_bp'' \<mapsto> avg_systolic_bp,
          ''avg_glucose'' \<mapsto> avg_glucose])"

definition find_abnormal_readings :: "table \<Rightarrow> (string \<rightharpoonup> int)" where
  "find_abnormal_readings data =
     (let high_hr_count = np_sum_bool (np_greater (map heart_rate data) 90);
          high_bp_count = np_sum_bool (np_greater (map blood_pressure_systolic data) 130);
          high_glucose_count = np_sum_bool (np_greater (map glucose_level data) 110)
      in [''high_heart_rate'' \<mapsto> high_hr_count,
          ''high_blood_pressure'' \<mapsto> high_bp_count,
          ''high_glucose'' \<mapsto> high_glucose_count])"

text \<open>
  \<^verbatim>\<open>total_readings = len(data)\<close> in \<^verbatim>\<open>main\<close>: \<^verbatim>\<open>len\<close> of a 0-d array raises
  \<^verbatim>\<open>TypeError\<close> (\<^verbatim>\<open>len() of unsized object\<close>).
\<close>

datatype error = KeyError string | TypeError | IndexError | FileNotFoundError string
  | FileExistsError string | NotADirectoryError string | IsADirectoryError string

definition total_readings :: "ndarray \<Rightarrow> error + int" where
  "total_readings data =
     (case data of Array0 r \<Rightarrow> Inl TypeError | Array1 t \<Rightarrow> Inr (int (length t)))"

subsection \<open>Report formatting\<close>

text \<open>Python's \<^verbatim>\<open>str\<close> of an integer: decimal digits, a minus sign when negative.\<close>

definition digit_char :: "nat \<Rightarrow> char" where
  "digit_char n = ''0123456789'' ! (n mod 10)"

fun show_nat :: "nat \<Rightarrow> string" where
  "show_nat n = (if n < 10 then [digit_char n] else show_nat (n div 10) @ [digit_char (n mod 10)])"

declare show_nat.simps [simp del]

definition show_int :: "int \<Rightarrow> string" where
  "show_int i = (if i < 0 then ''-'' @ show_nat (nat (- i)) else show_nat (nat i))"

text \<open>
  The format specification \<^verbatim>\<open>.1f\<close> on a float: the exact binary value, correctly rounded
  to one decimal digit (ties to even), with the sign kept; \<^verbatim>\<open>nan\<close> and \<^verbatim>\<open>inf\<close> for
  the values that are not finite.
\<close>

fun format_1f :: "float64 \<Rightarrow> string" where
  "format_1f NaN = ''nan''"
| "format_1f PInf = ''inf''"
| "format_1f NInf = ''-inf''"
| "format_1f NegZero = ''-0.0''"
| "format_1f (Fin q) =
     (let n = nat (round_half_even (\<bar>q\<bar> * 10))
      in (if q < 0 then ''-'' else []) @ show_nat (n div 10) @ ''.'' @ [digit_char (n mod 10)])"

text \<open>\<^verbatim>\<open>sep.join(lines)\<close>.\<close>

fun join :: "string \<Rightarrow> string list \<Rightarrow> string" where
  "join sep [] = []"
| "join sep [x] = x"
| "join sep (x # y # ys) = x @ sep @ join sep (y # ys)"

text \<open>\<^verbatim>\<open>d[k]\<close> on a dictionary raises \<^verbatim>\<open>KeyError\<close> for a missing key.\<close>

definition getitem :: "(string \<rightharpoonup> 'v) \<Rightarrow> string \<Rightarrow> error + 'v" where
  "getitem d k = (case d k of None \<Rightarrow> Inl (KeyError k) | Some v \<Rightarrow> Inr v)"

text \<open>
  \<^verbatim>\<open>generate_report(stats, abnormal, total_readings)\<close>: the lines are appended in order,
  so the first missing key is the one whose \<^verbatim>\<open>KeyError\<close> is raised; the third parameter
  is written \<open>n_readings\<close> here.
\<close>

definition generate_report ::
  "(string \<rightharpoonup> float64) \<Rightarrow> (string \<rightharpoonup> int) \<Rightarrow> int \<Rightarrow> error + string" where
  "generate_report stats abnormal n_readings =
     (case getitem stats ''avg_heart_rate'' of Inl e \<Rightarrow> Inl e | Inr avg_heart_rate \<Rightarrow>
      case getitem stats ''avg_systolic_bp'' of Inl e \<Rightarrow> Inl e | Inr avg_systolic_bp \<Rightarrow>
      case getitem stats ''avg_glucose'' of Inl e \<Rightarrow> Inl e | Inr avg_glucose \<Rightarrow>
      case getitem abnormal ''high_heart_rate'' of Inl e \<Rightarrow> Inl e | Inr high_heart_rate \<Rightarrow>
      case getitem abnormal ''high_blood_pressure'' of Inl e \<Rightarrow> Inl e | Inr high_blood_pressure \<Rightarrow>
      case getitem abnormal ''high_glucose'' of Inl e \<Rightarrow> Inl e | Inr high_glucose \<Rightarrow>
      Inr (join ''\<newline>''
        [''Health Sensor Data Analysis Report'',
         ''=================================='',
         [],
         ''Dataset Summary:'',
         ''- Total readings: '' @ show_int n_readings,
         [],
         ''Average Measurements:'',
         ''Heart Rate: '' @ format_1f avg_heart_rate @ '' bpm'',
         ''Systolic BP: '' @ format_1f avg_systolic_bp @ '' mmHg'',
         ''Glucose Level: '' @ format_1f avg_glucose @ '' mg/dL'',
         [],
         ''Abnormal Readings:'',
         ''High Heart Rate (>90): '' @ show_int high_heart_rate @ '' readings'',
         ''High Blood Pressure (>130): '' @ show_int high_blood_pressure @ '' readings'',
         ''High Glucose (>110): '' @ show_int high_glucose @ '' readings'',
         []]))"

text \<open>The shape of a number printed with exactly one digit after the decimal point, and
  of a plain integer.\<close>

definition is_digit :: "char \<Rightarrow> bool" where
  "is_digit c = (c \<in> set ''0123456789'')"

definition unsigned :: "string \<Rightarrow> string" where
  "unsigned s = (case s of c # cs \<Rightarrow> if c = CHR ''-'' then cs else s | [] \<Rightarrow> [])"

definition one_decimal :: "string \<Rightarrow> bool" where
  "one_decimal s =
     (case rev (unsigned s) of
        d # p # i # ds \<Rightarrow> is_digit d \<and> p = CHR ''.'' \<and> list_all is_digit (i # ds)
      | _ \<Rightarrow> False)"

definition plain_integer :: "string \<Rightarrow> bool" where
  "plain_integer s = (unsigned s \<noteq> [] \<and> list_all is_digit (unsigned s))"

text \<open>\<^verbatim>\<open>math.isfinite\<close>: neither NaN nor an infinity.\<close>

fun isfinite :: "float64 \<Rightarrow> bool" where
  "isfinite (Fin q) = True"
| "isfinite NegZero = True"
| "isfinite _ = False"

subsection \<open>The table in memory\<close>

text \<open>
  NumPy arrays are objects in memory. \<^verbatim>\<open>data['heart_rate']\<close> is a view that shares the
  buffer of the table, \<^verbatim>\<open>view > c\<close> allocates a new boolean array, and \<^verbatim>\<open>.mean()\<close>
  and \<^verbatim>\<open>.sum()\<close> read a buffer and return a scalar. The heap is the list of the array
  buffers and an address is an index in it; a new buffer is put at the end. A variable of
  the Python program always holds the address of a live array of the right kind; for any
  other address the model answers \<open>IndexError\<close>.
\<close>

datatype buffer = Rows table | Bools "bool list"

type_synonym heap = "buffer list"

datatype view = View nat "reading \<Rightarrow> 32 word"

definition read_view :: "heap \<Rightarrow> view \<Rightarrow> error + 32 word list" where
  "read_view h v =
     (case v of View a f \<Rightarrow>
        if a < length h then (case h ! a of Rows t \<Rightarrow> Inr (map f t) | Bools bs \<Rightarrow> Inl IndexError)
        else Inl IndexError)"

definition mean_mem :: "view \<Rightarrow> heap \<Rightarrow> error + float64 \<times> heap" where
  "mean_mem v h = (case read_view h v of Inl e \<Rightarrow> Inl e | Inr xs \<Rightarrow> Inr (np_mean xs, h))"

definition greater_mem :: "view \<Rightarrow> int \<Rightarrow> heap \<Rightarrow> error + nat \<times> heap" where
  "greater_mem v c h =
     (case read_view h v of Inl e \<Rightarrow> Inl e
      | Inr xs \<Rightarrow> Inr (length h, h @ [Bools (np_greater xs c)]))"

definition sum_mem :: "nat \<Rightarrow> heap \<Rightarrow> error + int \<times> heap" where
  "sum_mem b h =
     (if b < length h then (case h ! b of Bools bs \<Rightarrow> Inr (np_sum_bool bs, h) | Rows t \<Rightarrow> Inl IndexError)
      else Inl IndexError)"

text \<open>The two functions again, statement by statement, on the address of the table.\<close>

definition calculate_statistics_mem ::
  "nat \<Rightarrow> heap \<Rightarrow> error + (string \<rightharpoonup> float64) \<times> heap" where
  "calculate_statistics_mem data h =
     (case mean_mem (View data heart_rate) h of Inl e \<Rightarrow> Inl e | Inr (avg_heart_rate, h1) \<Rightarrow>
      case mean_mem (View data blood_pressure_systolic) h1 of Inl e \<Rightarrow> Inl e
      | Inr (avg_systolic_bp, h2) \<Rightarrow>
      case mean_mem (View data glucose_level) h2 of Inl e \<Rightarrow> Inl e | Inr (avg_glucose, h3) \<Rightarrow>
      Inr ([''avg_heart_rate'' \<mapsto> avg_heart_rate,
            ''avg_systolic_bp'' \<mapsto> avg_systolic_bp,
            ''avg_glucose'' \<mapsto> avg_glucose], h3))"

definition count_above_mem :: "view \<Rightarrow> int \<Rightarrow> heap \<Rightarrow> error + int \<times> heap" where
  "count_above_mem v c h =
     (case greater_mem v c h of Inl e \<Rightarrow> Inl e | Inr (b, h1) \<Rightarrow> sum_mem b h1)"

definition find_abnormal_readings_mem ::
  "nat \<Rightarrow> heap \<Rightarrow> error + (string \<rightharpoonup> int) \<times> heap" where
  "find_abnormal_readings_mem data h =
     (case count_above_mem (View data heart_rate) 90 h of Inl e \<Rightarrow> Inl e
      | Inr (high_hr_count, h1) \<Rightarrow>
      case count_above_mem (View data blood_pressure_systolic) 130 h1 of Inl e \<Rightarrow> Inl e
      | Inr (high_bp_count, h2) \<Rightarrow>
      case count_above_mem (View data glucose_level) 110 h2 of Inl e \<Rightarrow> Inl e
      | Inr (high_glucose_count, h3) \<Rightarrow>
      Inr ([''high_heart_rate'' \<mapsto> high_hr_count,
            ''high_blood_pressure'' \<mapsto> high_bp_count,
            ''high_glucose'' \<mapsto> high_glucose_count], h3))"

subsection \<open>Saving the report\<close>

text \<open>
  \<^verbatim>\<open>save_report\<close> calls \<^verbatim>\<open>os.path.dirname\<close>, \<^verbatim>\<open>os.makedirs\<close> and \<^verbatim>\<open>open\<close>. The
  path functions are those of \<^verbatim>\<open>posixpath\<close>: \<^verbatim>\<open>split\<close> cuts a path after its last
  slash and strips the slashes that end the head, unless the head is slashes only.
\<close>

definition rstrip_slash :: "string \<Rightarrow> string" where
  "rstrip_slash s = rev (dropWhile (\<lambda>c. c = CHR ''/'') (rev s))"

definition path_split :: "string \<Rightarrow> string \<times> string" where
  "path_split p =
     (let head = rev (dropWhile (\<lambda>c. c \<noteq> CHR ''/'') (rev p));
          tail = rev (takeWhile (\<lambda>c. c \<noteq> CHR ''/'') (rev p))
      in (if head \<noteq> [] \<and> head \<noteq> replicate (length head) (CHR ''/'')
          then rstrip_slash head else head, tail))"

definition dirname :: "string \<Rightarrow> string" where
  "dirname p =
     (let head = rev (dropWhile (\<lambda>c. c \<noteq> CHR ''/'') (rev p))
      in if head \<noteq> [] \<and> head \<noteq> replicate (length head) (CHR ''/'')
         then rstrip_slash head else head)"

text \<open>
  The file system: a tree of directories and regular files, each node under the list of
  names that leads to it from the root, and the working directory of the process. There
  are no symbolic links and no permissions, and the disk is never full.
\<close>

datatype node = Dir | File string

record filesystem =
  nodes :: "string list \<rightharpoonup> node"
  cwd :: "string list"

text \<open>The components of a path, as \<^verbatim>\<open>p.split('/')\<close> gives them.\<close>

fun split_slash :: "string \<Rightarrow> string list" where
  "split_slash [] = [[]]"
| "split_slash (c # cs) =
     (if c = CHR ''/'' then [] # split_slash cs
      else (case split_slash cs of x # xs \<Rightarrow> (c # x) # xs | [] \<Rightarrow> [[c]]))"

text \<open>
  Path resolution: every component is looked up in a directory that exists; an empty
  component and \<^verbatim>\<open>.\<close> stay in it, \<^verbatim>\<open>..\<close> goes to its parent.
\<close>

definition step :: "string list \<Rightarrow> string \<Rightarrow> string list" where
  "step cur c =
     (if c = [] \<or> c = ''.'' then cur else if c = ''..'' then butlast cur else cur @ [c])"

fun walk :: "(string list \<rightharpoonup> node) \<Rightarrow> string \<Rightarrow> string list \<Rightarrow> string list \<Rightarrow> error + string list" where
  "walk ns p cur [] = Inr cur"
| "walk ns p cur (c # cs) =
     (case ns cur of
        None \<Rightarrow> Inl (FileNotFoundError p)
      | Some (File content) \<Rightarrow> Inl (NotADirectoryError p)
      | Some Dir \<Rightarrow> walk ns p (step cur c) cs)"

definition start :: "filesystem \<Rightarrow> string \<Rightarrow> string list" where
  "start fs p = (case p of c # cs \<Rightarrow> if c = CHR ''/'' then [] else cwd fs | [] \<Rightarrow> cwd fs)"

text \<open>\<^verbatim>\<open>os.stat\<close>: the empty path names nothing (\<^verbatim>\<open>ENOENT\<close>).\<close>

definition stat :: "filesystem \<Rightarrow> string \<Rightarrow> error + node" where
  "stat fs p =
     (if p = [] then Inl (FileNotFoundError p)
      else case walk (nodes fs) p (start fs p) (split_slash p) of
             Inl e \<Rightarrow> Inl e
           | Inr r \<Rightarrow> (case nodes fs r of None \<Rightarrow> Inl (FileNotFoundError p) | Some n \<Rightarrow> Inr n))"

definition path_exists :: "filesystem \<Rightarrow> string \<Rightarrow> bool" where
  "path_exists fs p = (case stat fs p of Inl e \<Rightarrow> False | Inr n \<Rightarrow> True)"

definition isdir :: "filesystem \<Rightarrow> string \<Rightarrow> bool" where
  "isdir fs p = (stat fs p = Inr Dir)"

text \<open>\<^verbatim>\<open>os.mkdir\<close>: one directory, in a parent that exists.\<close>

definition mkdir :: "string \<Rightarrow> filesystem \<Rightarrow> error + filesystem" where
  "mkdir p fs =
     (if p = [] then Inl (FileNotFoundError p)
      else let comps = rev (dropWhile (\<lambda>c. c = []) (rev (split_slash p)))
           in if comps = [] then Inl (FileExistsError p)
              else case walk (nodes fs) p (start fs p) (butlast comps) of
                     Inl e \<Rightarrow> Inl e
                   | Inr parent \<Rightarrow>
                      (case nodes fs parent of
                         None \<Rightarrow> Inl (FileNotFoundError p)
                       | Some (File content) \<Rightarrow> Inl (NotADirectoryError p)
                       | Some Dir \<Rightarrow>
                           if last comps = ''.'' \<or> last comps = ''..''
                              \<or> nodes fs (parent @ [last comps]) \<noteq> None
                           then Inl (FileExistsError p)
                           else Inr (fs\<lparr>nodes := (nodes fs)(parent @ [last comps] \<mapsto> Dir)\<rparr>)))"

text \<open>
  \<^verbatim>\<open>os.makedirs(name, exist_ok)\<close>, after \<^verbatim>\<open>Lib/os.py\<close>: the head of the path is made
  first when it does not exist, then the leaf; an error of the leaf is swallowed when
  \<^verbatim>\<open>exist_ok\<close> is set and the path is a directory. The result is the exception raised,
  if any, with the file system as it is then.
\<close>

definition makedirs_split :: "string \<Rightarrow> string \<times> string" where
  "makedirs_split name =
     (case path_split name of (head, tail) \<Rightarrow> if tail = [] then path_split head else (head, tail))"

definition makedirs_leaf :: "string \<Rightarrow> bool \<Rightarrow> filesystem \<Rightarrow> error option \<times> filesystem" where
  "makedirs_leaf name exist_ok fs =
     (case mkdir name fs of
        Inr fs1 \<Rightarrow> (None, fs1)
      | Inl e \<Rightarrow> if \<not> exist_ok \<or> \<not> isdir fs name then (Some e, fs) else (None, fs))"

lemma path_split_length:
  "length (fst (path_split p)) + length (snd (path_split p)) \<le> length p"
proof -
  have "length (dropWhile P xs) + length (takeWhile P xs) = length xs" for P and xs :: string
    by (induction xs) auto
  from this[of "\<lambda>c. c \<noteq> CHR ''/''" "rev p"]
  have raw: "length (dropWhile (\<lambda>c. c \<noteq> CHR ''/'') (rev p))
      + length (takeWhile (\<lambda>c. c \<noteq> CHR ''/'') (rev p)) = length p"
    by simp
  have "length (rstrip_slash s) \<le> length s" for s
    using length_dropWhile_le[of "\<lambda>c. c = CHR ''/''" "rev s"] by (simp add: rstrip_slash_def)
  from this[of "rev (dropWhile (\<lambda>c. c \<noteq> CHR ''/'') (rev p))"]
  have strip: "length (rstrip_slash (rev (dropWhile (\<lambda>c. c \<noteq> CHR ''/'') (rev p))))
      \<le> length (dropWhile (\<lambda>c. c \<noteq> CHR ''/'') (rev p))"
    by simp
  show ?thesis
    using raw strip by (simp add: path_split_def Let_def)
qed

lemma makedirs_split_shorter:
  assumes "snd (makedirs_split name) \<noteq> []"
  shows "length (fst (makedirs_split name)) < length name"
proof -
  obtain h t where ht: "path_split name = (h, t)" by (cases "path_split name")
  have 1: "length h + length t \<le> length name"
    using path_split_length[of name] by (simp add: ht)
  show ?thesis
  proof (cases "t = []")
    case True
    obtain h' t' where ht': "path_split h = (h', t')" by (cases "path_split h")
    have 2: "length h' + length t' \<le> length h"
      using path_split_length[of h] by (simp add: ht')
    have "makedirs_split name = (h', t')" by (simp add: makedirs_split_def ht True ht')
    with assms have "t' \<noteq> []" "fst (makedirs_split name) = h'" by simp_all
    with 1 2 show ?thesis by (cases t') auto
  next
    case False
    then have "makedirs_split name = (h, t)" by (simp add: makedirs_split_def ht)
    with False 1 show ?thesis by (cases t) auto
  qed
qed

function makedirs :: "string \<Rightarrow> bool \<Rightarrow> filesystem \<Rightarrow> error option \<times> filesystem" where
  "makedirs name exist_ok fs =
     (if fst (makedirs_split name) \<noteq> [] \<and> snd (makedirs_split name) \<noteq> []
         \<and> \<not> path_exists fs (fst (makedirs_split name))
      then (case makedirs (fst (makedirs_split name)) exist_ok fs of
              (Some (FileExistsError x), fs1) \<Rightarrow>
                 if snd (makedirs_split name) = ''.'' then (None, fs1)
                 else makedirs_leaf name exist_ok fs1
            | (Some e, fs1) \<Rightarrow> (Some e, fs1)
            | (None, fs1) \<Rightarrow>
                 if snd (makedirs_split name) = ''.'' then (None, fs1)
                 else makedirs_leaf name exist_ok fs1)
      else makedirs_leaf name exist_ok fs)"
  by pat_completeness auto
termination
  by (relation "measure (\<lambda>(name, exist_ok, fs). length name)")
    (auto simp: makedirs_split_shorter)

declare makedirs.simps [simp del]

text \<open>\<^verbatim>\<open>open(filename, 'w')\<close>, \<^verbatim>\<open>f.write(report)\<close> and the close, as one step.\<close>

definition write_text :: "string \<Rightarrow> string \<Rightarrow> filesystem \<Rightarrow> error + filesystem" where
  "write_text p content fs =
     (if p = [] then Inl (FileNotFoundError p)
      else case walk (nodes fs) p (start fs p) (butlast (split_slash p)) of
             Inl e \<Rightarrow> Inl e
           | Inr parent \<Rightarrow>
              (case nodes fs parent of
                 None \<Rightarrow> Inl (FileNotFoundError p)
               | Some (File old) \<Rightarrow> Inl (NotADirectoryError p)
               | Some Dir \<Rightarrow>
                   let name = last (split_slash p)
                   in if name = [] \<or> name = ''.'' \<or> name = ''..'' then Inl (IsADirectoryError p)
                      else (case nodes fs (parent @ [name]) of
                              Some Dir \<Rightarrow> Inl (IsADirectoryError p)
                            | _ \<Rightarrow> Inr (fs\<lparr>nodes := (nodes fs)(parent @ [name] \<mapsto> File content)\<rparr>))))"

definition save_report :: "string \<Rightarrow> string \<Rightarrow> filesystem \<Rightarrow> error option \<times> filesystem" where
  "save_report report filename fs =
     (case makedirs (dirname filename) True fs of
        (Some e, fs1) \<Rightarrow> (Some e, fs1)
      | (None, fs1) \<Rightarrow>
          (case write_text filename report fs1 of
             Inl e \<Rightarrow> (Some e, fs1)
           | Inr fs2 \<Rightarrow> (None, fs2)))"

section \<open>Properties\<close>

subsection \<open>Rounding to binary64\<close>

lemma round_half_even_bounds: "\<lfloor>q\<rfloor> \<le> round_half_even q \<and> round_half_even q \<le> \<lceil>q\<rceil>"
  unfolding round_half_even_def Let_def
  by (auto simp: ceiling_def) linarith+

lemma round_half_even_abs_le:
  assumes "\<bar>x\<bar> \<le> of_int b"
  shows "\<bar>round_half_even x\<bar> \<le> b"
proof -
  have "of_int (- b) \<le> x" "x \<le> of_int b" using assms by (auto simp: abs_le_iff)
  then have "- b \<le> \<lfloor>x\<rfloor>" "\<lceil>x\<rceil> \<le> b" by (simp_all only: le_floor_iff ceiling_le_iff)
  with round_half_even_bounds[of x] show ?thesis by linarith
qed

lemma round_half_even_frac:
  assumes "0 < b"
  shows "round_half_even (of_int a / of_int b) =
     (if 2 * (a mod b) < b then a div b
      else if b < 2 * (a mod b) then a div b + 1
      else if even (a div b) then a div b else a div b + 1)"
proof -
  have B: "0 < (of_int b :: rat)" using assms by simp
  have f: "\<lfloor>(of_int a :: rat) / of_int b\<rfloor> = a div b" by (rule floor_divide_of_int_eq)
  have "(of_int a :: rat) = of_int b * of_int (a div b) + of_int (a mod b)"
    by (simp only: of_int_mult[symmetric] of_int_add[symmetric] mult_div_mod_eq)
  then have d: "(of_int a :: rat) / of_int b - of_int (a div b) = of_int (a mod b) / of_int b"
    using B by (simp add: field_simps)
  have lt: "(of_int (a mod b) :: rat) / of_int b < 1 / 2 \<longleftrightarrow> 2 * (a mod b) < b"
  proof -
    have "(of_int (a mod b) :: rat) / of_int b < 1 / 2
        \<longleftrightarrow> (of_int (2 * (a mod b)) :: rat) < of_int b"
      using B by (simp add: field_simps)
    then show ?thesis by (simp only: of_int_less_iff)
  qed
  have gt: "1 / 2 < (of_int (a mod b) :: rat) / of_int b \<longleftrightarrow> b < 2 * (a mod b)"
  proof -
    have "1 / 2 < (of_int (a mod b) :: rat) / of_int b
        \<longleftrightarrow> (of_int b :: rat) < of_int (2 * (a mod b))"
      using B by (simp add: field_simps)
    then show ?thesis by (simp only: of_int_less_iff)
  qed
  show ?thesis unfolding round_half_even_def Let_def f d lt gt by simp
qed

lemma round_half_even_numeral:
  "round_half_even (numeral x / numeral y) =
     (if 2 * (numeral x mod numeral y) < (numeral y :: int) then numeral x div numeral y
      else if (numeral y :: int) < 2 * (numeral x mod numeral y) then numeral x div numeral y + 1
      else if even (numeral x div numeral y :: int) then numeral x div numeral y
      else numeral x div numeral y + 1)"
  using round_half_even_frac[of "numeral y" "numeral x"] by simp

lemma round_half_even_of_int: "round_half_even (of_int i) = i"
  by (simp add: round_half_even_def)

lemma round_half_even_whole:
  "round_half_even (numeral x) = numeral x"
  "round_half_even (- numeral x) = - numeral x"
  using round_half_even_of_int[of "numeral x"] round_half_even_of_int[of "- numeral x"]
  by simp_all

lemma bitlen_powi:
  assumes "0 < a"
  shows "(2::rat) powi (bitlen a - 1) \<le> of_int a" "of_int a < (2::rat) powi (bitlen a)"
proof -
  from bitlen_bounds[OF assms]
  have b: "2 ^ nat (bitlen a - 1) \<le> a" "a < 2 ^ nat (bitlen a)" by auto
  have ge1: "1 \<le> bitlen a" using assms by (auto simp: bitlen_alt_def)
  have "(of_int (2 ^ nat (bitlen a - 1)) :: rat) \<le> of_int a"
    using b(1) by (simp only: of_int_le_iff)
  then show "(2::rat) powi (bitlen a - 1) \<le> of_int a" using ge1 by (simp add: power_int_def)
  have "(of_int a :: rat) < of_int (2 ^ nat (bitlen a))"
    using b(2) by (simp only: of_int_less_iff)
  then show "of_int a < (2::rat) powi (bitlen a)" using ge1 by (simp add: power_int_def)
qed

lemma ilog2_bounds:
  assumes "0 < q"
  shows "2 powi (ilog2 q) \<le> q \<and> q < 2 powi (ilog2 q + 1)"
proof -
  obtain a b where ab: "quotient_of q = (a, b)" by (cases "quotient_of q")
  then have bpos: "0 < b" and q: "q = of_int a / of_int b"
    by (auto simp: quotient_of_denom_pos quotient_of_div)
  have apos: "0 < a" using assms bpos q by (simp add: zero_less_divide_iff)
  define d where "d = bitlen a - bitlen b"
  have B: "0 < (of_int b :: rat)" using bpos by simp
  have up: "q < 2 powi (d + 1)"
  proof -
    have "of_int a < (2::rat) powi (bitlen a)" by (rule bitlen_powi[OF apos])
    also have "\<dots> = 2 powi (d + 1) * 2 powi (bitlen b - 1)"
      by (simp add: d_def power_int_add[symmetric])
    also have "\<dots> \<le> 2 powi (d + 1) * of_int b"
      using bitlen_powi(1)[OF bpos] by (simp add: mult_left_mono)
    finally show ?thesis using B by (simp add: q pos_divide_less_eq)
  qed
  have lo: "2 powi (d - 1) < q"
  proof -
    have "2 powi (d - 1) * of_int b < (2::rat) powi (d - 1) * 2 powi (bitlen b)"
      using bitlen_powi(2)[OF bpos] by (simp add: mult_strict_left_mono)
    also have "\<dots> = 2 powi (bitlen a - 1)"
      by (simp add: d_def power_int_add[symmetric])
    also have "\<dots> \<le> of_int a" by (rule bitlen_powi[OF apos])
    finally show ?thesis using B by (simp add: q pos_less_divide_eq)
  qed
  show ?thesis
  proof (cases "2 powi d \<le> q")
    case True
    then have "ilog2 q = d" by (simp add: ilog2_def ab d_def Let_def)
    with True up show ?thesis by simp
  next
    case False
    then have "ilog2 q = d - 1" by (simp add: ilog2_def ab d_def Let_def)
    with False lo show ?thesis by simp
  qed
qed

lemma powi2_less_imp: "(2::rat) powi m < 2 powi n \<Longrightarrow> m < n"
  using power_int_increasing[of n m "2::rat"] by (cases "m < n") auto

lemma ilog2_unique:
  assumes "2 powi k \<le> q" "q < 2 powi (k + 1)"
  shows "ilog2 q = k"
proof -
  have "0 < (2::rat) powi k" by simp
  with assms have qpos: "0 < q" by linarith
  from ilog2_bounds[OF qpos]
  have b: "2 powi (ilog2 q) \<le> q" "q < 2 powi (ilog2 q + 1)" by auto
  have "(2::rat) powi k < 2 powi (ilog2 q + 1)" using assms(1) b(2) by linarith
  then have 1: "k < ilog2 q + 1" by (rule powi2_less_imp)
  have "(2::rat) powi (ilog2 q) < 2 powi (k + 1)" using assms(2) b(1) by linarith
  then have 2: "ilog2 q < k + 1" by (rule powi2_less_imp)
  from 1 2 show ?thesis by linarith
qed

lemma ilog2_less:
  assumes "0 < q" "q < 2 powi n"
  shows "ilog2 q < n"
proof -
  have "2 powi (ilog2 q) \<le> q" using ilog2_bounds[OF assms(1)] by simp
  with assms(2) have "(2::rat) powi (ilog2 q) < 2 powi n" by linarith
  then show ?thesis by (rule powi2_less_imp)
qed

lemma ilog2_ge:
  assumes "2 powi n \<le> q"
  shows "n \<le> ilog2 q"
proof -
  have "0 < (2::rat) powi n" by simp
  with assms have qpos: "0 < q" by linarith
  have "q < 2 powi (ilog2 q + 1)" using ilog2_bounds[OF qpos] by simp
  with assms have "(2::rat) powi n < 2 powi (ilog2 q + 1)" by linarith
  then have "n < ilog2 q + 1" by (rule powi2_less_imp)
  then show ?thesis by simp
qed

lemma round_half_even_error: "\<bar>of_int (round_half_even x) - x\<bar> \<le> 1 / 2"
proof -
  have f: "of_int \<lfloor>x\<rfloor> \<le> x" "x < of_int \<lfloor>x\<rfloor> + 1" by linarith+
  show ?thesis
    unfolding round_half_even_def Let_def using f by (auto simp: abs_le_iff) 
qed

lemma round_half_even_nonzero:
  assumes "1 \<le> \<bar>x\<bar>"
  shows "round_half_even x \<noteq> 0"
proof (cases "0 \<le> x")
  case True
  with assms have "of_int 1 \<le> x" by simp
  then have "1 \<le> \<lfloor>x\<rfloor>" by (simp only: le_floor_iff)
  with round_half_even_bounds[of x] show ?thesis by linarith
next
  case False
  with assms have "x \<le> of_int (- 1)" by simp
  then have "\<lceil>x\<rceil> \<le> - 1" by (simp only: ceiling_le_iff)
  with round_half_even_bounds[of x] show ?thesis by linarith
qed

text \<open>
  The value of the rounding in the normal range, once the exponent is known: a 53-bit
  integer times a power of two.
\<close>

lemma f64_round_normal_mantissa:
  assumes lo: "2 powi k \<le> \<bar>q\<bar>" and hi: "\<bar>q\<bar> < 2 powi (k + 1)"
    and k: "- 1022 \<le> k" "k \<le> 1022"
  shows "f64_round q = Fin (of_int (round_half_even (q / 2 powi (k - 52))) * 2 powi (k - 52))
       \<and> \<bar>round_half_even (q / 2 powi (k - 52))\<bar> \<le> 2 ^ 53
       \<and> round_half_even (q / 2 powi (k - 52)) \<noteq> 0"
proof -
  have "0 < (2::rat) powi k" by simp
  with lo have "0 < \<bar>q\<bar>" by linarith
  then have q0: "q \<noteq> 0" by simp
  have il: "ilog2 \<bar>q\<bar> = k" using lo hi by (rule ilog2_unique)
  have e: "max (ilog2 \<bar>q\<bar> - 52) (- 1074) = k - 52" using k by (simp add: il)
  define m where "m = round_half_even (q / 2 powi (k - 52))"
  define r where "r = (of_int m :: rat) * 2 powi (k - 52)"
  have pp: "0 < (2::rat) powi (k - 52)" by simp
  have ax: "\<bar>q / 2 powi (k - 52)\<bar> = \<bar>q\<bar> / 2 powi (k - 52)" by simp
  have "\<bar>q\<bar> / 2 powi (k - 52) \<le> 2 powi (k + 1) / 2 powi (k - 52)"
    using hi pp by (simp add: divide_right_mono)
  also have "\<dots> = 2 powi 53" by (simp add: power_int_diff[symmetric])
  also have "\<dots> = of_int (2 ^ 53)" by simp
  finally have "\<bar>q / 2 powi (k - 52)\<bar> \<le> of_int (2 ^ 53)" by (simp only: ax)
  then have mb: "\<bar>m\<bar> \<le> 2 ^ 53" unfolding m_def by (rule round_half_even_abs_le)
  have "(1::rat) \<le> 2 powi 52" by simp
  also have "\<dots> = 2 powi k / 2 powi (k - 52)"
    by (simp add: power_int_diff[symmetric])
  also have "\<dots> \<le> \<bar>q\<bar> / 2 powi (k - 52)"
    using lo pp by (simp only: divide_right_mono less_imp_le)
  finally have "1 \<le> \<bar>q / 2 powi (k - 52)\<bar>" by (simp only: ax)
  then have m0: "m \<noteq> 0" unfolding m_def by (rule round_half_even_nonzero)
  then have r0: "r \<noteq> 0" by (simp add: r_def)
  have "(of_int \<bar>m\<bar> :: rat) \<le> of_int (2 ^ 53)" using mb by (simp only: of_int_le_iff)
  then have "\<bar>of_int m :: rat\<bar> \<le> 2 powi 53" by simp
  then have "\<bar>r\<bar> \<le> 2 powi 53 * 2 powi (k - 52)"
    unfolding r_def abs_mult using pp by (simp add: mult_right_mono)
  also have "\<dots> = 2 powi (k + 1)"
    using power_int_add[of "2::rat" 53 "k - 52"] by (simp add: add.commute)
  also have "\<dots> \<le> 2 powi 1023" using k by (intro power_int_increasing) auto
  also have "\<dots> < 2 ^ 1024" by simp
  finally have "\<bar>r\<bar> < 2 ^ 1024" .
  then have "\<not> 2 ^ 1024 \<le> r" "\<not> r \<le> - (2 ^ 1024)" by linarith+
  then have "f64_round q = Fin r"
    using q0 r0 unfolding f64_round_def Let_def e m_def[symmetric] r_def[symmetric] by simp
  with mb m0 show ?thesis by (simp add: r_def m_def)
qed

lemma f64_round_normal:
  assumes "2 powi k \<le> \<bar>q\<bar>" and "\<bar>q\<bar> < 2 powi (k + 1)" and "- 1022 \<le> k" "k \<le> 1022"
  shows "f64_round q = Fin (of_int (round_half_even (q / 2 powi (k - 52))) * 2 powi (k - 52))"
  using f64_round_normal_mantissa[OF assms] by simp

text \<open>
  Rounding a number of the normal range gives a binary64 number (a 53-bit integer times
  a power of two) within half a unit in the last place of it: the relative error is at
  most \<open>2 ^ - 53\<close>.
\<close>

lemma f64_round_near:
  assumes "2 powi (- 1022) \<le> \<bar>q\<bar>" and "\<bar>q\<bar> < 2 powi 1023"
  shows "\<exists>r m e. f64_round q = Fin r \<and> r = of_int m * 2 powi e \<and> \<bar>m\<bar> \<le> 2 ^ 53
           \<and> \<bar>r - q\<bar> * 2 ^ 53 \<le> \<bar>q\<bar>"
proof -
  have pos: "0 < \<bar>q\<bar>" using assms(1) zero_less_power_int[of "2::rat" "- 1022"] by linarith
  define k where "k = ilog2 \<bar>q\<bar>"
  have b: "2 powi k \<le> \<bar>q\<bar>" "\<bar>q\<bar> < 2 powi (k + 1)"
    using ilog2_bounds[OF pos] by (simp_all add: k_def)
  have k1: "- 1022 \<le> k" unfolding k_def using assms(1) by (rule ilog2_ge)
  have "k < 1023" unfolding k_def using pos assms(2) by (rule ilog2_less)
  then have k2: "k \<le> 1022" by simp
  define e where "e = k - 52"
  define m where "m = round_half_even (q / 2 powi e)"
  define r where "r = (of_int m :: rat) * 2 powi e"
  from f64_round_normal_mantissa[OF b k1 k2]
  have fr: "f64_round q = Fin r" and mb: "\<bar>m\<bar> \<le> 2 ^ 53"
    by (simp_all add: r_def m_def e_def)
  have pp: "0 < (2::rat) powi e" by simp
  have "r - q = (of_int m - q / 2 powi e) * 2 powi e"
    by (simp add: r_def algebra_simps)
  then have "\<bar>r - q\<bar> = \<bar>of_int m - q / 2 powi e\<bar> * 2 powi e"
    by (simp add: abs_mult)
  also have "\<dots> \<le> 1 / 2 * 2 powi e"
    using round_half_even_error[of "q / 2 powi e"] pp
    by (intro mult_right_mono) (simp_all add: m_def)
  finally have "\<bar>r - q\<bar> * 2 ^ 53 \<le> (1 / 2 * 2 powi e) * 2 ^ 53"
    by (intro mult_right_mono) simp_all
  also have "\<dots> = 2 powi e * 2 powi 52" by simp
  also have "\<dots> = 2 powi k"
    using power_int_add[of "2::rat" e 52] by (simp add: e_def)
  also have "\<dots> \<le> \<bar>q\<bar>" by (rule b(1))
  finally show ?thesis using fr mb r_def by blast
qed

text \<open>Rounding cannot cross an integer that is itself a binary64 value.\<close>

lemma f64_round_between:
  fixes lo hi :: int
  assumes lo: "of_int lo \<le> q" and hi: "q \<le> of_int hi"
    and rlo: "- (2 ^ 53) < lo" and rhi: "hi < 2 ^ 53"
    and normal: "q = 0 \<or> 2 powi (- 1022) \<le> \<bar>q\<bar>"
  shows "\<exists>r. f64_round q = Fin r \<and> of_int lo \<le> r \<and> r \<le> of_int hi"
proof (cases "q = 0")
  case True
  with lo hi show ?thesis by (simp add: f64_round_def)
next
  case False
  with normal have n: "2 powi (- 1022) \<le> \<bar>q\<bar>" by simp
  have pos: "0 < \<bar>q\<bar>" using False by simp
  define k where "k = ilog2 \<bar>q\<bar>"
  have b: "2 powi k \<le> \<bar>q\<bar>" "\<bar>q\<bar> < 2 powi (k + 1)"
    using ilog2_bounds[OF pos] by (simp_all add: k_def)
  have k1: "- 1022 \<le> k" unfolding k_def using n by (rule ilog2_ge)
  have "q < of_int ((2::int) ^ 53)" using hi rhi
    by (meson less_le_trans le_less_trans of_int_less_iff)
  moreover have "of_int (- ((2::int) ^ 53)) < q" using lo rlo
    by (meson less_le_trans le_less_trans of_int_less_iff)
  ultimately have "\<bar>q\<bar> < 2 powi 53" by simp
  with pos have k53: "k < 53" unfolding k_def by (rule ilog2_less)
  then have k2: "k \<le> 1022" by simp
  define e where "e = k - 52"
  define m where "m = round_half_even (q / 2 powi e)"
  define r where "r = (of_int m :: rat) * 2 powi e"
  from f64_round_normal[OF b k1 k2]
  have fr: "f64_round q = Fin r" by (simp add: r_def m_def e_def)
  have e0: "e \<le> 0" using k53 by (simp add: e_def)
  define n where "n = nat (- e)"
  have pe: "(2::rat) powi e = 1 / 2 ^ n"
    using e0 by (simp add: n_def power_int_def power_one_over)
  have x: "q / 2 powi e = q * 2 ^ n" by (simp add: pe)
  have P: "0 < (2::rat) ^ n" by simp
  have "of_int (lo * 2 ^ n) \<le> q * 2 ^ n" using lo by (simp add: mult_right_mono)
  then have "lo * 2 ^ n \<le> \<lfloor>q * 2 ^ n\<rfloor>" by (simp only: le_floor_iff)
  also have "\<dots> \<le> m" using round_half_even_bounds[of "q * 2 ^ n"] by (simp add: m_def x)
  finally have "(of_int (lo * 2 ^ n) :: rat) \<le> of_int m" by (simp only: of_int_le_iff)
  then have L: "of_int lo \<le> r" using P by (simp add: r_def pe pos_le_divide_eq)
  have "q * 2 ^ n \<le> of_int (hi * 2 ^ n)" using hi by (simp add: mult_right_mono)
  then have "\<lceil>q * 2 ^ n\<rceil> \<le> hi * 2 ^ n" by (simp only: ceiling_le_iff)
  moreover have "m \<le> \<lceil>q * 2 ^ n\<rceil>"
    using round_half_even_bounds[of "q * 2 ^ n"] by (simp add: m_def x)
  ultimately have "m \<le> hi * 2 ^ n" by linarith
  then have "(of_int m :: rat) \<le> of_int (hi * 2 ^ n)" by (simp only: of_int_le_iff)
  then have H: "r \<le> of_int hi" using P by (simp add: r_def pe pos_divide_le_eq)
  from fr L H show ?thesis by blast
qed

text \<open>An integer of magnitude at most \<open>2 ^ 53\<close> is a binary64 value.\<close>

lemma f64_round_int:
  assumes "\<bar>i\<bar> \<le> 2 ^ 53"
  shows "f64_round (of_int i) = Fin (of_int i)"
proof -
  consider "i = 0" | "i = 2 ^ 53" | "i = - (2 ^ 53)" | "i \<noteq> 0" "\<bar>i\<bar> < 2 ^ 53"
    using assms by linarith
  then show ?thesis
  proof cases
    case 1
    then show ?thesis by (simp add: f64_round_def)
  next
    case 2
    have "f64_round 9007199254740992 = Fin 9007199254740992"
      by (subst f64_round_normal[where k = 53]) (simp_all add: round_half_even_whole)
    with 2 show ?thesis by simp
  next
    case 3
    have "f64_round (- 9007199254740992) = Fin (- 9007199254740992)"
      by (subst f64_round_normal[where k = 53]) (simp_all add: round_half_even_whole)
    with 3 show ?thesis by simp
  next
    case 4
    have "1 \<le> \<bar>i\<bar>" using 4(1) by linarith
    then have "(of_int 1 :: rat) \<le> of_int \<bar>i\<bar>" by (simp only: of_int_le_iff)
    then have one: "(1::rat) \<le> \<bar>of_int i\<bar>" by simp
    have "(2::rat) powi (- 1022) \<le> 2 powi 0" by (intro power_int_increasing) auto
    with one have n: "2 powi (- 1022) \<le> \<bar>of_int i :: rat\<bar>" by simp
    have "\<exists>r. f64_round (of_int i) = Fin r \<and> of_int i \<le> r \<and> r \<le> of_int i"
      using 4(2) n by (intro f64_round_between) auto
    then show ?thesis by auto
  qed
qed

lemma f64_of_int_exact: "\<bar>i\<bar> \<le> 2 ^ 53 \<Longrightarrow> f64_of_int i = Fin (of_int i)"
  by (simp add: f64_of_int_def f64_round_int)

subsection \<open>Column reductions\<close>

lemma sint32_abs: "\<bar>sint (x :: 32 word)\<bar> \<le> 2 ^ 31"
  using sint_ge[of x] sint_lt[of x] by simp

lemma sint32_bounds: "- (2 ^ 31) \<le> sint (x :: 32 word) \<and> sint x \<le> 2 ^ 31"
  using sint_ge[of x] sint_lt[of x] by simp

lemma f64_of_int_sint: "f64_of_int (sint (x :: 32 word)) = Fin (of_int (sint x))"
proof -
  have "\<bar>sint x\<bar> \<le> 2 ^ 53" using sint32_abs[of x] by simp
  then show ?thesis by (rule f64_of_int_exact)
qed

lemma f64_add_exact:
  assumes "\<bar>a + b\<bar> \<le> 2 ^ 53"
  shows "f64_add (Fin (of_int a)) (Fin (of_int b)) = Fin (of_int (a + b))"
proof (cases "a + b = 0")
  case True
  have "(of_int a :: rat) + of_int b = of_int (a + b)" by simp
  with True have "(of_int a :: rat) + of_int b = 0" by (simp only: of_int_0)
  with True show ?thesis by (simp add: f64_add_def)
next
  case False
  have "(of_int a :: rat) + of_int b = of_int (a + b)" by simp
  moreover from False have "(of_int (a + b) :: rat) \<noteq> 0" by (simp only: of_int_eq_0_iff) simp
  ultimately have "(of_int a :: rat) + of_int b \<noteq> 0" by metis
  then show ?thesis
    using f64_round_int[OF assms] by (simp add: f64_add_def)
qed

text \<open>
  The float64 accumulator holds the exact sum as long as the partial sums cannot exceed
  \<open>2 ^ 53\<close> in magnitude.
\<close>

lemma fold_f64_add_exact:
  "\<bar>a\<bar> + int (length xs) * 2 ^ 31 \<le> 2 ^ 53 \<Longrightarrow>
   fold (\<lambda>x acc. f64_add acc (f64_of_int (sint x))) (xs :: 32 word list) (Fin (of_int a)) =
     Fin (of_int (a + sum_list (map sint xs)))"
proof (induction xs arbitrary: a)
  case Nil
  then show ?case by simp
next
  case (Cons x xs)
  have x: "\<bar>sint x\<bar> \<le> 2 ^ 31" by (rule sint32_abs)
  have len: "0 \<le> int (length xs) * 2 ^ 31" by simp
  have b1: "\<bar>a + sint x\<bar> \<le> 2 ^ 53" using Cons.prems x len by (simp add: algebra_simps)
  have b2: "\<bar>a + sint x\<bar> + int (length xs) * 2 ^ 31 \<le> 2 ^ 53"
    using Cons.prems x by (simp add: algebra_simps)
  have "f64_add (Fin (of_int a)) (f64_of_int (sint x)) = Fin (of_int (a + sint x))"
    by (simp only: f64_of_int_sint f64_add_exact[OF b1])
  then show ?case
    using Cons.IH[OF b2] by (simp add: add.assoc)
qed

lemma np_add_reduce_exact:
  assumes "length xs \<le> 2 ^ 22"
  shows "np_add_reduce xs = Fin (of_int (sum_list (map sint xs)))"
proof -
  have "int (length xs) \<le> int (2 ^ 22)" using assms by (simp only: of_nat_le_iff)
  then have "int (length xs) \<le> 2 ^ 22" by simp
  then have "int (length xs) * 2 ^ 31 \<le> 2 ^ 22 * 2 ^ 31" by (intro mult_right_mono) simp_all
  then have "\<bar>0::int\<bar> + int (length xs) * 2 ^ 31 \<le> 2 ^ 53" by simp
  from fold_f64_add_exact[OF this] show ?thesis by (simp add: np_add_reduce_def)
qed

lemma np_mean_exact:
  assumes "length xs \<le> 2 ^ 22"
  shows "np_mean xs =
     (if xs = [] then NaN
      else f64_round (of_int (sum_list (map sint xs)) / of_nat (length xs)))"
proof -
  have "int (length xs) \<le> int (2 ^ 22)" using assms by (simp only: of_nat_le_iff)
  then have "int (length xs) \<le> 2 ^ 22" by simp
  then have "\<bar>int (length xs)\<bar> \<le> 2 ^ 53" by simp
  then have n: "f64_of_int (int (length xs)) = Fin (of_nat (length xs))"
    by (simp add: f64_of_int_exact)
  show ?thesis
    unfolding np_mean_def np_add_reduce_exact[OF assms] n
    by (simp add: f64_div_def signed_zero_def f64_round_def)
qed

text \<open>The mean of a short non-empty column is zero or in the normal range of binary64.\<close>

lemma mean_normal_range:
  fixes s :: int and n :: nat
  assumes "s \<noteq> 0" and "0 < n" and "n \<le> 2 ^ 22"
  shows "2 powi (- 1022) \<le> \<bar>(of_int s :: rat) / of_nat n\<bar>"
proof -
  have "1 \<le> \<bar>s\<bar>" using assms(1) by linarith
  then have "(of_int 1 :: rat) \<le> of_int \<bar>s\<bar>" by (simp only: of_int_le_iff)
  then have s1: "(1::rat) \<le> \<bar>of_int s\<bar>" by simp
  have "(of_nat n :: rat) \<le> of_nat (2 ^ 22)" using assms(3) by (simp only: of_nat_le_iff)
  then have n1: "(of_nat n :: rat) \<le> 2 ^ 22" by simp
  have npos: "0 < (of_nat n :: rat)" using assms(2) by simp
  have "(2::rat) powi (- 1022) \<le> 2 powi (- 22)" by (intro power_int_increasing) auto
  also have "\<dots> = 1 / 2 ^ 22" by (simp add: power_int_minus_divide)
  also have "\<dots> \<le> 1 / of_nat n" using n1 npos by (simp add: frac_le)
  also have "\<dots> \<le> \<bar>of_int s\<bar> / of_nat n" using s1 npos by (simp add: divide_right_mono)
  finally show ?thesis using npos by simp
qed

lemma sum_list_lower: "(\<forall>x\<in>set ys. lo \<le> x) \<Longrightarrow> lo * int (length ys) \<le> sum_list ys"
  by (induction ys) (auto simp: algebra_simps)

lemma sum_list_upper: "(\<forall>x\<in>set ys. x \<le> hi) \<Longrightarrow> sum_list ys \<le> hi * int (length ys)"
  by (induction ys) (auto simp: algebra_simps)

lemma mean_between:
  fixes ys :: "int list"
  assumes "ys \<noteq> []"
  shows "of_int (Min (set ys)) \<le> (of_int (sum_list ys) :: rat) / of_nat (length ys)
       \<and> (of_int (sum_list ys) :: rat) / of_nat (length ys) \<le> of_int (Max (set ys))"
proof -
  define n where "n = length ys"
  have npos: "0 < n" using assms by (simp add: n_def)
  have N: "0 < (of_nat n :: rat)" using npos by simp
  have "Min (set ys) * int n \<le> sum_list ys"
    unfolding n_def by (rule sum_list_lower) simp
  then have "(of_int (Min (set ys) * int n) :: rat) \<le> of_int (sum_list ys)"
    by (simp only: of_int_le_iff)
  then have L: "of_int (Min (set ys)) \<le> (of_int (sum_list ys) :: rat) / of_nat n"
    using N by (simp add: pos_le_divide_eq)
  have "sum_list ys \<le> Max (set ys) * int n"
    unfolding n_def by (rule sum_list_upper) simp
  then have "(of_int (sum_list ys) :: rat) \<le> of_int (Max (set ys) * int n)"
    by (simp only: of_int_le_iff)
  then have H: "(of_int (sum_list ys) :: rat) / of_nat n \<le> of_int (Max (set ys))"
    using N by (simp add: pos_divide_le_eq)
  from L H show ?thesis by (simp add: n_def)
qed

lemma np_mean_bounds:
  assumes "xs \<noteq> []" and "length xs \<le> 2 ^ 22"
  shows "\<exists>m. np_mean xs = Fin m
            \<and> of_int (Min (sint ` set xs)) \<le> m \<and> m \<le> of_int (Max (sint ` set xs))"
proof -
  define ys where "ys = map sint xs"
  define q where "q = (of_int (sum_list ys) :: rat) / of_nat (length ys)"
  have ne: "ys \<noteq> []" using assms(1) by (simp add: ys_def)
  have lo_in: "Min (set ys) \<in> set ys" and hi_in: "Max (set ys) \<in> set ys"
    using ne by (auto intro: Min_in Max_in)
  have rng: "- (2 ^ 53) < y \<and> y < 2 ^ 53" if "y \<in> set ys" for y
  proof -
    from that obtain x :: "32 word" where "y = sint x" by (auto simp: ys_def)
    then show ?thesis using sint32_abs[of x] by (simp add: abs_le_iff)
  qed
  have rlo: "- (2 ^ 53) < Min (set ys)" using rng[OF lo_in] by simp
  have rhi: "Max (set ys) < 2 ^ 53" using rng[OF hi_in] by simp
  have between: "of_int (Min (set ys)) \<le> q" "q \<le> of_int (Max (set ys))"
    using mean_between[OF ne] by (simp_all add: q_def)
  have normal: "q = 0 \<or> 2 powi (- 1022) \<le> \<bar>q\<bar>"
  proof (cases "sum_list ys = 0")
    case True
    then show ?thesis by (simp add: q_def)
  next
    case False
    have "0 < length ys" using ne by simp
    moreover have "length ys \<le> 2 ^ 22" using assms(2) by (simp add: ys_def)
    ultimately show ?thesis
      unfolding q_def using mean_normal_range[OF False] by blast
  qed
  from f64_round_between[OF between rlo rhi normal]
  obtain r where r: "f64_round q = Fin r" "of_int (Min (set ys)) \<le> r" "r \<le> of_int (Max (set ys))"
    by blast
  have "np_mean xs = f64_round q"
    using assms by (simp add: np_mean_exact q_def ys_def)
  with r show ?thesis by (auto simp: ys_def)
qed

text \<open>
  The mean of a short non-empty column is a binary64 number within relative error
  \<open>2 ^ - 53\<close> of the exact quotient.
\<close>

lemma np_mean_near:
  assumes "xs \<noteq> []" and "length xs \<le> 2 ^ 22"
  shows "\<exists>r m e. np_mean xs = Fin r \<and> r = of_int m * 2 powi e \<and> \<bar>m\<bar> \<le> 2 ^ 53
           \<and> \<bar>r - of_int (sum_list (map sint xs)) / of_nat (length xs)\<bar> * 2 ^ 53
               \<le> \<bar>of_int (sum_list (map sint xs)) / of_nat (length xs)\<bar>"
proof -
  define s where "s = sum_list (map sint xs)"
  define n where "n = length xs"
  define q where "q = (of_int s :: rat) / of_nat n"
  have npos: "0 < n" and nle: "n \<le> 2 ^ 22" using assms by (simp_all add: n_def)
  have mean: "np_mean xs = f64_round q"
    using assms by (simp add: np_mean_exact q_def s_def n_def)
  show ?thesis
  proof (cases "s = 0")
    case True
    then have "np_mean xs = Fin 0" "q = 0" by (simp_all add: mean q_def f64_round_def)
    then have "np_mean xs = Fin 0 \<and> (0::rat) = of_int 0 * 2 powi 0 \<and> \<bar>0::int\<bar> \<le> 2 ^ 53
        \<and> \<bar>0 - q\<bar> * 2 ^ 53 \<le> \<bar>q\<bar>" by simp
    then show ?thesis unfolding q_def s_def n_def by blast
  next
    case False
    have lo: "2 powi (- 1022) \<le> \<bar>q\<bar>"
      unfolding q_def by (rule mean_normal_range[OF False npos nle])
    have "\<bar>s\<bar> \<le> int n * 2 ^ 31"
    proof -
      have "\<forall>x\<in>set (map sint xs). - (2 ^ 31) \<le> x"
        using sint32_bounds by auto
      from sum_list_lower[OF this] have 1: "- (2 ^ 31) * int n \<le> s" by (simp add: s_def n_def)
      have "\<forall>x\<in>set (map sint xs). x \<le> 2 ^ 31"
        using sint32_bounds by auto
      from sum_list_upper[OF this] have 2: "s \<le> 2 ^ 31 * int n" by (simp add: s_def n_def)
      from 1 2 show ?thesis by (simp add: abs_le_iff algebra_simps)
    qed
    then have "(of_int \<bar>s\<bar> :: rat) \<le> of_int (int n * 2 ^ 31)" by (simp only: of_int_le_iff)
    then have "\<bar>of_int s :: rat\<bar> \<le> of_nat n * 2 ^ 31" by simp
    then have "\<bar>q\<bar> \<le> 2 ^ 31" using npos by (simp add: q_def pos_divide_le_eq algebra_simps)
    also have "\<dots> < (2::rat) powi 1023" by simp
    finally have hi: "\<bar>q\<bar> < 2 powi 1023" .
    from f64_round_near[OF lo hi] show ?thesis
      unfolding mean q_def s_def n_def by blast
  qed
qed

lemma fold_count_true:
  "fold (\<lambda>b acc. acc + (if b then 1 else 0)) bs (a::int) = a + int (length (filter id bs))"
  by (induction bs arbitrary: a) simp_all

lemma np_sum_bool_count: "np_sum_bool bs = int (length (filter id bs))"
  by (simp add: np_sum_bool_def fold_count_true)

lemma count_greater:
  "np_sum_bool (np_greater (map f t) c) = int (length (filter (\<lambda>r. c < sint (f r)) t))"
  by (simp add: np_sum_bool_count np_greater_def filter_map comp_def)

text \<open>
  A column of \<open>2 ^ 22 + 1\<close> rows: the sum of the first \<open>2 ^ 22\<close> values is exact, and the
  last addition rounds. For equal values \<open>2147483647\<close> the exact sum \<open>9007201398030335\<close>
  is odd and above \<open>2 ^ 53\<close>; it is rounded to \<open>9007201398030336\<close>, and the mean is
  \<open>2147483647.0000002\<close>. For equal values \<open>2147483645\<close> the sum \<open>9007201389641725\<close> is
  rounded down, and the mean is \<open>2147483644.9999998\<close>.
\<close>

lemma np_add_reduce_snoc:
  "np_add_reduce (xs @ [x]) = f64_add (np_add_reduce xs) (f64_of_int (sint x))"
  by (simp add: np_add_reduce_def)

lemma np_mean_snoc:
  assumes "length xs = m" and "m \<le> 2 ^ 22"
  shows "np_mean (xs @ [x]) =
     f64_div (f64_add (Fin (of_int (sum_list (map sint xs)))) (Fin (of_int (sint x))))
       (Fin (of_int (int m + 1)))"
proof -
  have len: "length xs \<le> 2 ^ 22" using assms by simp
  have "int m \<le> int (2 ^ 22)" using assms(2) by (simp only: of_nat_le_iff)
  then have "\<bar>int m + 1\<bar> \<le> 2 ^ 53" by simp
  then have d: "f64_of_int (int m + 1) = Fin (of_int (int m + 1))" by (rule f64_of_int_exact)
  have "int (length (xs @ [x])) = int m + 1" using assms(1) by simp
  then show ?thesis
    unfolding np_mean_def np_add_reduce_snoc np_add_reduce_exact[OF len] f64_of_int_sint
    by (simp only: d)
qed

lemma f64_mean_2147483647:
  "f64_div (f64_add (Fin 9007199250546688) (Fin 2147483647)) (Fin 4194305) =
     Fin (9007199250546689 / 4194304)"
proof -
  have s: "f64_round 9007201398030335 = Fin 9007201398030336"
    by (subst f64_round_normal[where k = 53]) (simp_all add: round_half_even_numeral)
  have q: "f64_round (9007201398030336 / 4194305) = Fin (9007199250546689 / 4194304)"
    by (subst f64_round_normal[where k = 30]) (simp_all add: round_half_even_numeral)
  show ?thesis by (simp add: f64_add_def f64_div_def s q)
qed

lemma f64_mean_2147483645:
  "f64_div (f64_add (Fin 9007199242158080) (Fin 2147483645)) (Fin 4194305) =
     Fin (9007199242158079 / 4194304)"
proof -
  have s: "f64_round 9007201389641725 = Fin 9007201389641724"
    by (subst f64_round_normal[where k = 53]) (simp_all add: round_half_even_numeral)
  have q: "f64_round (9007201389641724 / 4194305) = Fin (9007199242158079 / 4194304)"
    by (subst f64_round_normal[where k = 30]) (simp_all add: round_half_even_numeral)
  show ?thesis by (simp add: f64_add_def f64_div_def s q)
qed

lemma np_mean_replicate:
  assumes "m = 2 ^ 22"
  shows "np_mean (replicate (Suc m) x) =
     f64_div (f64_add (Fin (of_int (int m * sint x))) (Fin (of_int (sint x))))
       (Fin (of_int (int m + 1)))"
proof -
  have r: "replicate (Suc m) x = replicate m x @ [x]" by (simp add: replicate_append_same)
  have s: "sum_list (map sint (replicate m x)) = int m * sint x"
    by (simp add: sum_list_replicate)
  have "m \<le> 2 ^ 22" using assms by simp
  from np_mean_snoc[OF _ this, of "replicate m x" x] show ?thesis
    unfolding r s by simp
qed

lemma np_mean_2147483647:
  assumes "n = 4194305" and "sint (x :: 32 word) = 2147483647"
  shows "np_mean (replicate n x) = Fin (9007199250546689 / 4194304)"
proof -
  define m :: nat where "m = 4194304"
  have n: "n = Suc m" and m: "m = 2 ^ 22" by (simp_all add: assms(1) m_def)
  have i: "int m * 2147483647 = 9007199250546688" "int m + 1 = 4194305" by (simp_all add: m_def)
  show ?thesis
    unfolding n np_mean_replicate[OF m] assms(2) i by (simp only: of_int_numeral f64_mean_2147483647)
qed

lemma np_mean_2147483645:
  assumes "n = 4194305" and "sint (x :: 32 word) = 2147483645"
  shows "np_mean (replicate n x) = Fin (9007199242158079 / 4194304)"
proof -
  define m :: nat where "m = 4194304"
  have n: "n = Suc m" and m: "m = 2 ^ 22" by (simp_all add: assms(1) m_def)
  have i: "int m * 2147483645 = 9007199242158080" "int m + 1 = 4194305" by (simp_all add: m_def)
  show ?thesis
    unfolding n np_mean_replicate[OF m] assms(2) i by (simp only: of_int_numeral f64_mean_2147483645)
qed

subsection \<open>The aggregator and the scanner\<close>

lemma calculate_statistics_lookup:
  "calculate_statistics t ''avg_heart_rate'' = Some (np_mean (map heart_rate t))"
  "calculate_statistics t ''avg_systolic_bp'' = Some (np_mean (map blood_pressure_systolic t))"
  "calculate_statistics t ''avg_glucose'' = Some (np_mean (map glucose_level t))"
  by (simp_all add: calculate_statistics_def Let_def)

text \<open>
  C1 (as amended). For every table, \<^verbatim>\<open>calculate_statistics\<close> returns a mapping with
  exactly three entries. For a table of at most \<open>2 ^ 22\<close> rows each entry is the sum of all
  values of its column divided by the row count, as a float64: NaN on the empty table, and
  otherwise the exact quotient rounded to binary64, which is a number with a significand
  of at most 53 bits within relative error \<open>2 ^ - 53\<close> of the exact quotient.
\<close>

theorem calculate_statistics_means:
  "dom (calculate_statistics t) = {''avg_heart_rate'', ''avg_systolic_bp'', ''avg_glucose''}
   \<and> (length t \<le> 2 ^ 22 \<longrightarrow>
        calculate_statistics t ''avg_heart_rate'' =
          Some (if t = [] then NaN
                else f64_round (of_int (\<Sum>x\<leftarrow>t. sint (heart_rate x)) / of_nat (length t)))
      \<and> calculate_statistics t ''avg_systolic_bp'' =
          Some (if t = [] then NaN
                else f64_round (of_int (\<Sum>x\<leftarrow>t. sint (blood_pressure_systolic x)) / of_nat (length t)))
      \<and> calculate_statistics t ''avg_glucose'' =
          Some (if t = [] then NaN
                else f64_round (of_int (\<Sum>x\<leftarrow>t. sint (glucose_level x)) / of_nat (length t))))
   \<and> (t \<noteq> [] \<and> length t \<le> 2 ^ 22 \<longrightarrow>
        (\<exists>r m e. calculate_statistics t ''avg_heart_rate'' = Some (Fin r)
            \<and> r = of_int m * 2 powi e \<and> \<bar>m\<bar> \<le> 2 ^ 53
            \<and> \<bar>r - of_int (\<Sum>x\<leftarrow>t. sint (heart_rate x)) / of_nat (length t)\<bar> * 2 ^ 53
                \<le> \<bar>of_int (\<Sum>x\<leftarrow>t. sint (heart_rate x)) / of_nat (length t)\<bar>)
      \<and> (\<exists>r m e. calculate_statistics t ''avg_systolic_bp'' = Some (Fin r)
            \<and> r = of_int m * 2 powi e \<and> \<bar>m\<bar> \<le> 2 ^ 53
            \<and> \<bar>r - of_int (\<Sum>x\<leftarrow>t. sint (blood_pressure_systolic x)) / of_nat (length t)\<bar> * 2 ^ 53
                \<le> \<bar>of_int (\<Sum>x\<leftarrow>t. sint (blood_pressure_systolic x)) / of_nat (length t)\<bar>)
      \<and> (\<exists>r m e. calculate_statistics t ''avg_glucose'' = Some (Fin r)
            \<and> r = of_int m * 2 powi e \<and> \<bar>m\<bar> \<le> 2 ^ 53
            \<and> \<bar>r - of_int (\<Sum>x\<leftarrow>t. sint (glucose_level x)) / of_nat (length t)\<bar> * 2 ^ 53
                \<le> \<bar>of_int (\<Sum>x\<leftarrow>t. sint (glucose_level x)) / of_nat (length t)\<bar>))"
proof -
  have d: "dom (calculate_statistics t) = {''avg_heart_rate'', ''avg_systolic_bp'', ''avg_glucose''}"
    by (auto simp: calculate_statistics_def Let_def)
  have v: "np_mean (map f t) =
      (if t = [] then NaN else f64_round (of_int (\<Sum>x\<leftarrow>t. sint (f x)) / of_nat (length t)))"
    if "length t \<le> 2 ^ 22" for f :: "reading \<Rightarrow> 32 word"
    using np_mean_exact[of "map f t"] that by (simp add: comp_def)
  have m: "\<exists>r m e. np_mean (map f t) = Fin r \<and> r = of_int m * 2 powi e \<and> \<bar>m\<bar> \<le> 2 ^ 53
            \<and> \<bar>r - of_int (\<Sum>x\<leftarrow>t. sint (f x)) / of_nat (length t)\<bar> * 2 ^ 53
                \<le> \<bar>of_int (\<Sum>x\<leftarrow>t. sint (f x)) / of_nat (length t)\<bar>"
    if "t \<noteq> []" "length t \<le> 2 ^ 22" for f :: "reading \<Rightarrow> 32 word"
    using np_mean_near[of "map f t"] that by (simp add: comp_def)
  show ?thesis
    unfolding calculate_statistics_lookup option.inject
    by (intro conjI impI; (elim conjE)?)
       (rule d | rule v, assumption | rule m, assumption, assumption)+
qed

theorem calculate_statistics_means_witness:
  "[\<lparr>patient_id = ''P001'', timestamp = ''2024-01-15T08:00:00'', heart_rate = 72,
       blood_pressure_systolic = 118, blood_pressure_diastolic = 80, temperature = Fin (73 / 2),
       glucose_level = 95, sensor_id = ''S1''\<rparr>,
     \<lparr>patient_id = ''P002'', timestamp = ''2024-01-15T09:00:00'', heart_rate = 85,
       blood_pressure_systolic = 125, blood_pressure_diastolic = 82, temperature = Fin 37,
       glucose_level = 102, sensor_id = ''S2''\<rparr>,
     \<lparr>patient_id = ''P003'', timestamp = ''2024-01-15T10:00:00'', heart_rate = 91,
       blood_pressure_systolic = 141, blood_pressure_diastolic = 85, temperature = Fin 38,
       glucose_level = 110, sensor_id = ''S3''\<rparr>] \<noteq> []
   \<and> length
    [\<lparr>patient_id = ''P001'', timestamp = ''2024-01-15T08:00:00'', heart_rate = 72,
       blood_pressure_systolic = 118, blood_pressure_diastolic = 80, temperature = Fin (73 / 2),
       glucose_level = 95, sensor_id = ''S1''\<rparr>,
     \<lparr>patient_id = ''P002'', timestamp = ''2024-01-15T09:00:00'', heart_rate = 85,
       blood_pressure_systolic = 125, blood_pressure_diastolic = 82, temperature = Fin 37,
       glucose_level = 102, sensor_id = ''S2''\<rparr>,
     \<lparr>patient_id = ''P003'', timestamp = ''2024-01-15T10:00:00'', heart_rate = 91,
       blood_pressure_systolic = 141, blood_pressure_diastolic = 85, temperature = Fin 38,
       glucose_level = 110, sensor_id = ''S3''\<rparr>] \<le> 2 ^ 22
   \<and> calculate_statistics
    [\<lparr>patient_id = ''P001'', timestamp = ''2024-01-15T08:00:00'', heart_rate = 72,
       blood_pressure_systolic = 118, blood_pressure_diastolic = 80, temperature = Fin (73 / 2),
       glucose_level = 95, sensor_id = ''S1''\<rparr>,
     \<lparr>patient_id = ''P002'', timestamp = ''2024-01-15T09:00:00'', heart_rate = 85,
       blood_pressure_systolic = 125, blood_pressure_diastolic = 82, temperature = Fin 37,
       glucose_level = 102, sensor_id = ''S2''\<rparr>,
     \<lparr>patient_id = ''P003'', timestamp = ''2024-01-15T10:00:00'', heart_rate = 91,
       blood_pressure_systolic = 141, blood_pressure_diastolic = 85, temperature = Fin 38,
       glucose_level = 110, sensor_id = ''S3''\<rparr>] ''avg_heart_rate'' = Some (Fin (5817149518686891 / 70368744177664))
   \<and> calculate_statistics
    [\<lparr>patient_id = ''P001'', timestamp = ''2024-01-15T08:00:00'', heart_rate = 72,
       blood_pressure_systolic = 118, blood_pressure_diastolic = 80, temperature = Fin (73 / 2),
       glucose_level = 95, sensor_id = ''S1''\<rparr>,
     \<lparr>patient_id = ''P002'', timestamp = ''2024-01-15T09:00:00'', heart_rate = 85,
       blood_pressure_systolic = 125, blood_pressure_diastolic = 82, temperature = Fin 37,
       glucose_level = 102, sensor_id = ''S2''\<rparr>,
     \<lparr>patient_id = ''P003'', timestamp = ''2024-01-15T10:00:00'', heart_rate = 91,
       blood_pressure_systolic = 141, blood_pressure_diastolic = 85, temperature = Fin 38,
       glucose_level = 110, sensor_id = ''S3''\<rparr>] ''avg_systolic_bp'' = Some (Fin 128)
   \<and> calculate_statistics
    [\<lparr>patient_id = ''P001'', timestamp = ''2024-01-15T08:00:00'', heart_rate = 72,
       blood_pressure_systolic = 118, blood_pressure_diastolic = 80, temperature = Fin (73 / 2),
       glucose_level = 95, sensor_id = ''S1''\<rparr>,
     \<lparr>patient_id = ''P002'', timestamp = ''2024-01-15T09:00:00'', heart_rate = 85,
       blood_pressure_systolic = 125, blood_pressure_diastolic = 82, temperature = Fin 37,
       glucose_level = 102, sensor_id = ''S2''\<rparr>,
     \<lparr>patient_id = ''P003'', timestamp = ''2024-01-15T10:00:00'', heart_rate = 91,
       blood_pressure_systolic = 141, blood_pressure_diastolic = 85, temperature = Fin 38,
       glucose_level = 110, sensor_id = ''S3''\<rparr>] ''avg_glucose'' = Some (Fin (7201068154180949 / 70368744177664))"
proof -
  let ?t = "[\<lparr>patient_id = ''P001'', timestamp = ''2024-01-15T08:00:00'', heart_rate = 72,
       blood_pressure_systolic = 118, blood_pressure_diastolic = 80, temperature = Fin (73 / 2),
       glucose_level = 95, sensor_id = ''S1''\<rparr>,
     \<lparr>patient_id = ''P002'', timestamp = ''2024-01-15T09:00:00'', heart_rate = 85,
       blood_pressure_systolic = 125, blood_pressure_diastolic = 82, temperature = Fin 37,
       glucose_level = 102, sensor_id = ''S2''\<rparr>,
     \<lparr>patient_id = ''P003'', timestamp = ''2024-01-15T10:00:00'', heart_rate = 91,
       blood_pressure_systolic = 141, blood_pressure_diastolic = 85, temperature = Fin 38,
       glucose_level = 110, sensor_id = ''S3''\<rparr>]"
  have p1: "?t \<noteq> []" by simp
  have p2: "length ?t \<le> 2 ^ 22" by simp
  have r1: "f64_round (248 / 3) = Fin (5817149518686891 / 70368744177664)"
    by (subst f64_round_normal[where k = 6]) (simp_all add: round_half_even_numeral)
  have r2: "f64_round 128 = Fin 128"
    by (subst f64_round_normal[where k = 7]) (simp_all add: round_half_even_whole)
  have r3: "f64_round (307 / 3) = Fin (7201068154180949 / 70368744177664)"
    by (subst f64_round_normal[where k = 6]) (simp_all add: round_half_even_numeral)
  note v = calculate_statistics_means[of ?t, THEN conjunct2, THEN conjunct1, rule_format, OF p2]
  have v1: "calculate_statistics ?t ''avg_heart_rate'' =
      Some (Fin (5817149518686891 / 70368744177664))"
    using v[THEN conjunct1] by (simp add: r1)
  have v2: "calculate_statistics ?t ''avg_systolic_bp'' = Some (Fin 128)"
    using v[THEN conjunct2, THEN conjunct1] by (simp add: r2)
  have v3: "calculate_statistics ?t ''avg_glucose'' =
      Some (Fin (7201068154180949 / 70368744177664))"
    using v[THEN conjunct2, THEN conjunct2] by (simp add: r3)
  show ?thesis by (intro conjI) (rule p1 p2 v1 v2 v3)+
qed

text \<open>
  C1 as stated fails on a table of \<open>2 ^ 22 + 1 = 4194305\<close> rows whose heart rates are all
  \<open>2147483647\<close>: the sum of the column is \<open>9007201398030335\<close> and the sum divided by the
  row count is \<open>2147483647\<close>, a float64 value, but the float64 accumulator of
  \<^verbatim>\<open>mean\<close> rounds the sum and the mean returned is \<open>2147483647.0000002\<close>.
\<close>

theorem calculate_statistics_means_counterexample:
  "calculate_statistics
     (replicate 4194305
       \<lparr>patient_id = ''P001'', timestamp = ''2024-01-15T08:00:00'', heart_rate = 2147483647,
         blood_pressure_systolic = 120, blood_pressure_diastolic = 80, temperature = Fin 37,
         glucose_level = 2147483645, sensor_id = ''S1''\<rparr>) ''avg_heart_rate'' = Some (Fin (9007199250546689 / 4194304))
   \<and> sum_list (map sint (map heart_rate
     (replicate 4194305
       \<lparr>patient_id = ''P001'', timestamp = ''2024-01-15T08:00:00'', heart_rate = 2147483647,
         blood_pressure_systolic = 120, blood_pressure_diastolic = 80, temperature = Fin 37,
         glucose_level = 2147483645, sensor_id = ''S1''\<rparr>))) = 9007201398030335
   \<and> length
     (replicate 4194305
       \<lparr>patient_id = ''P001'', timestamp = ''2024-01-15T08:00:00'', heart_rate = 2147483647,
         blood_pressure_systolic = 120, blood_pressure_diastolic = 80, temperature = Fin 37,
         glucose_level = 2147483645, sensor_id = ''S1''\<rparr>) = 4194305
   \<and> f64_round (9007201398030335 / 4194305) = Fin 2147483647
   \<and> Fin (9007199250546689 / 4194304) \<noteq> Fin 2147483647"
proof -
  let ?r = "\<lparr>patient_id = ''P001'', timestamp = ''2024-01-15T08:00:00'', heart_rate = 2147483647,
         blood_pressure_systolic = 120, blood_pressure_diastolic = 80, temperature = Fin 37,
         glucose_level = 2147483645, sensor_id = ''S1''\<rparr>"
  have x: "sint (heart_rate ?r) = 2147483647" by simp
  have a: "calculate_statistics (replicate 4194305 ?r) ''avg_heart_rate'' =
      Some (Fin (9007199250546689 / 4194304))"
    unfolding calculate_statistics_lookup map_replicate
    by (simp only: np_mean_2147483647[OF refl x])
  have "sum_list (map sint (map heart_rate (replicate n ?r))) = int n * 2147483647" for n
    unfolding map_replicate sum_list_replicate x by simp
  from this[of 4194305]
  have b: "sum_list (map sint (map heart_rate (replicate 4194305 ?r))) = 9007201398030335"
    by simp
  have c: "length (replicate 4194305 ?r) = 4194305" by (rule length_replicate)
  have d: "f64_round (9007201398030335 / 4194305) = Fin 2147483647"
    by (subst f64_round_normal[where k = 30]) (simp_all add: round_half_even_whole)
  have e: "Fin (9007199250546689 / 4194304) \<noteq> Fin 2147483647" by simp
  show ?thesis by (intro conjI) (rule a b c d e)+
qed

text \<open>
  C2. For every table, \<^verbatim>\<open>find_abnormal_readings\<close> returns exactly three counts, each the
  number of rows whose value is strictly greater than the fixed threshold (90, 130, 110);
  a single row that sits exactly at the three thresholds is counted nowhere.
\<close>

theorem find_abnormal_readings_counts:
  "dom (find_abnormal_readings t) = {''high_heart_rate'', ''high_blood_pressure'', ''high_glucose''}
   \<and> find_abnormal_readings t ''high_heart_rate'' =
       Some (int (length (filter (\<lambda>r. 90 < sint (heart_rate r)) t)))
   \<and> find_abnormal_readings t ''high_blood_pressure'' =
       Some (int (length (filter (\<lambda>r. 130 < sint (blood_pressure_systolic r)) t)))
   \<and> find_abnormal_readings t ''high_glucose'' =
       Some (int (length (filter (\<lambda>r. 110 < sint (glucose_level r)) t)))
   \<and> find_abnormal_readings
        [r\<lparr>heart_rate := 90, blood_pressure_systolic := 130, glucose_level := 110\<rparr>] =
       [''high_heart_rate'' \<mapsto> 0, ''high_blood_pressure'' \<mapsto> 0, ''high_glucose'' \<mapsto> 0]"
proof -
  have d: "dom (find_abnormal_readings t) =
      {''high_heart_rate'', ''high_blood_pressure'', ''high_glucose''}"
    by (auto simp: find_abnormal_readings_def Let_def)
  have v: "find_abnormal_readings t ''high_heart_rate'' =
        Some (int (length (filter (\<lambda>r. 90 < sint (heart_rate r)) t)))"
      "find_abnormal_readings t ''high_blood_pressure'' =
        Some (int (length (filter (\<lambda>r. 130 < sint (blood_pressure_systolic r)) t)))"
      "find_abnormal_readings t ''high_glucose'' =
        Some (int (length (filter (\<lambda>r. 110 < sint (glucose_level r)) t)))"
    by (simp_all add: find_abnormal_readings_def Let_def count_greater)
  have s: "find_abnormal_readings
        [r\<lparr>heart_rate := 90, blood_pressure_systolic := 130, glucose_level := 110\<rparr>] =
       [''high_heart_rate'' \<mapsto> 0, ''high_blood_pressure'' \<mapsto> 0, ''high_glucose'' \<mapsto> 0]"
    by (simp add: find_abnormal_readings_def Let_def np_sum_bool_def np_greater_def)
  from d v s show ?thesis by simp
qed

text \<open>
  C4. On the empty table \<^verbatim>\<open>calculate_statistics\<close> raises nothing and returns NaN for
  every one of the three means.
\<close>

theorem calculate_statistics_empty:
  "calculate_statistics [] =
     [''avg_heart_rate'' \<mapsto> NaN, ''avg_systolic_bp'' \<mapsto> NaN, ''avg_glucose'' \<mapsto> NaN]"
proof -
  have "np_add_reduce [] = Fin 0" by (simp add: np_add_reduce_def)
  moreover have "f64_of_int 0 = Fin 0" by (simp add: f64_of_int_def f64_round_def)
  ultimately have "np_mean [] = NaN" by (simp add: np_mean_def f64_div_def)
  then show ?thesis by (simp add: calculate_statistics_def)
qed

text \<open>
  The counts of a table held in a one-dimensional array: the rows above a threshold and
  the rows at or below it are all the rows, and \<^verbatim>\<open>len\<close> counts them.
\<close>

lemma count_split:
  "int (length (filter (\<lambda>r. c < sint (f r)) t)) + int (length (filter (\<lambda>r. sint (f r) \<le> c) t))
     = int (length t)"
  using sum_length_filter_compl[of "\<lambda>r. c < sint (f r)" t] by (simp add: not_less)

lemma count_conservation_array1:
  "(\<exists>hr. find_abnormal_readings t ''high_heart_rate'' = Some hr
       \<and> Inr (hr + int (length (filter (\<lambda>r. sint (heart_rate r) \<le> 90) t)))
           = total_readings (Array1 t))
   \<and> (\<exists>bp. find_abnormal_readings t ''high_blood_pressure'' = Some bp
       \<and> Inr (bp + int (length (filter (\<lambda>r. sint (blood_pressure_systolic r) \<le> 130) t)))
           = total_readings (Array1 t))
   \<and> (\<exists>gl. find_abnormal_readings t ''high_glucose'' = Some gl
       \<and> Inr (gl + int (length (filter (\<lambda>r. sint (glucose_level r) \<le> 110) t)))
           = total_readings (Array1 t))"
  by (simp add: find_abnormal_readings_def Let_def count_greater total_readings_def count_split)

lemma genfromtxt_squeeze_array1: "length t \<noteq> 1 \<Longrightarrow> genfromtxt_squeeze t = Array1 t"
  by (cases t rule: list.exhaust[case_product list.exhaust])
     (auto simp: genfromtxt_squeeze_def split: list.splits)


text \<open>The values of a column of a table of equal rows.\<close>

lemma column_replicate_image: "0 < n \<Longrightarrow> sint ` f ` set (replicate n r) = {sint (f r)}"
  by simp

text \<open>
  C6 (as amended). For every non-empty table of at most \<open>2 ^ 22\<close> rows, each mean returned
  by \<^verbatim>\<open>calculate_statistics\<close> is a finite number between the smallest and the largest
  value of its column.
\<close>

theorem mean_bounds:
  assumes "t \<noteq> []" and "length t \<le> 2 ^ 22"
  shows "(\<exists>m. calculate_statistics t ''avg_heart_rate'' = Some (Fin m)
            \<and> of_int (Min (sint ` heart_rate ` set t)) \<le> m
            \<and> m \<le> of_int (Max (sint ` heart_rate ` set t)))
       \<and> (\<exists>m. calculate_statistics t ''avg_systolic_bp'' = Some (Fin m)
            \<and> of_int (Min (sint ` blood_pressure_systolic ` set t)) \<le> m
            \<and> m \<le> of_int (Max (sint ` blood_pressure_systolic ` set t)))
       \<and> (\<exists>m. calculate_statistics t ''avg_glucose'' = Some (Fin m)
            \<and> of_int (Min (sint ` glucose_level ` set t)) \<le> m
            \<and> m \<le> of_int (Max (sint ` glucose_level ` set t)))"
proof -
  have col: "\<exists>m. np_mean (map f t) = Fin m
            \<and> of_int (Min (sint ` f ` set t)) \<le> m \<and> m \<le> of_int (Max (sint ` f ` set t))"
    for f :: "reading \<Rightarrow> 32 word"
    using np_mean_bounds[of "map f t"] assms by simp
  show ?thesis
    unfolding calculate_statistics_lookup option.inject
    by (intro conjI) (rule col)+
qed

theorem mean_bounds_witness:
  "[\<lparr>patient_id = ''P001'', timestamp = ''2024-01-15T08:00:00'', heart_rate = 72,
       blood_pressure_systolic = 118, blood_pressure_diastolic = 80, temperature = Fin (73 / 2),
       glucose_level = 95, sensor_id = ''S1''\<rparr>,
     \<lparr>patient_id = ''P002'', timestamp = ''2024-01-15T09:00:00'', heart_rate = 88,
       blood_pressure_systolic = 141, blood_pressure_diastolic = 82, temperature = Fin 37,
       glucose_level = 120, sensor_id = ''S2''\<rparr>,
     \<lparr>patient_id = ''P003'', timestamp = ''2024-01-15T10:00:00'', heart_rate = 97,
       blood_pressure_systolic = 125, blood_pressure_diastolic = 85, temperature = Fin 38,
       glucose_level = 101, sensor_id = ''S3''\<rparr>] \<noteq> []
   \<and> length
    [\<lparr>patient_id = ''P001'', timestamp = ''2024-01-15T08:00:00'', heart_rate = 72,
       blood_pressure_systolic = 118, blood_pressure_diastolic = 80, temperature = Fin (73 / 2),
       glucose_level = 95, sensor_id = ''S1''\<rparr>,
     \<lparr>patient_id = ''P002'', timestamp = ''2024-01-15T09:00:00'', heart_rate = 88,
       blood_pressure_systolic = 141, blood_pressure_diastolic = 82, temperature = Fin 37,
       glucose_level = 120, sensor_id = ''S2''\<rparr>,
     \<lparr>patient_id = ''P003'', timestamp = ''2024-01-15T10:00:00'', heart_rate = 97,
       blood_pressure_systolic = 125, blood_pressure_diastolic = 85, temperature = Fin 38,
       glucose_level = 101, sensor_id = ''S3''\<rparr>] \<le> 2 ^ 22
   \<and> (\<exists>m. calculate_statistics
    [\<lparr>patient_id = ''P001'', timestamp = ''2024-01-15T08:00:00'', heart_rate = 72,
       blood_pressure_systolic = 118, blood_pressure_diastolic = 80, temperature = Fin (73 / 2),
       glucose_level = 95, sensor_id = ''S1''\<rparr>,
     \<lparr>patient_id = ''P002'', timestamp = ''2024-01-15T09:00:00'', heart_rate = 88,
       blood_pressure_systolic = 141, blood_pressure_diastolic = 82, temperature = Fin 37,
       glucose_level = 120, sensor_id = ''S2''\<rparr>,
     \<lparr>patient_id = ''P003'', timestamp = ''2024-01-15T10:00:00'', heart_rate = 97,
       blood_pressure_systolic = 125, blood_pressure_diastolic = 85, temperature = Fin 38,
       glucose_level = 101, sensor_id = ''S3''\<rparr>] ''avg_heart_rate'' = Some (Fin m)
        \<and> 72 \<le> m \<and> m \<le> 97)
   \<and> (\<exists>m. calculate_statistics
    [\<lparr>patient_id = ''P001'', timestamp = ''2024-01-15T08:00:00'', heart_rate = 72,
       blood_pressure_systolic = 118, blood_pressure_diastolic = 80, temperature = Fin (73 / 2),
       glucose_level = 95, sensor_id = ''S1''\<rparr>,
     \<lparr>patient_id = ''P002'', timestamp = ''2024-01-15T09:00:00'', heart_rate = 88,
       blood_pressure_systolic = 141, blood_pressure_diastolic = 82, temperature = Fin 37,
       glucose_level = 120, sensor_id = ''S2''\<rparr>,
     \<lparr>patient_id = ''P003'', timestamp = ''2024-01-15T10:00:00'', heart_rate = 97,
       blood_pressure_systolic = 125, blood_pressure_diastolic = 85, temperature = Fin 38,
       glucose_level = 101, sensor_id = ''S3''\<rparr>] ''avg_systolic_bp'' = Some (Fin m)
        \<and> 118 \<le> m \<and> m \<le> 141)
   \<and> (\<exists>m. calculate_statistics
    [\<lparr>patient_id = ''P001'', timestamp = ''2024-01-15T08:00:00'', heart_rate = 72,
       blood_pressure_systolic = 118, blood_pressure_diastolic = 80, temperature = Fin (73 / 2),
       glucose_level = 95, sensor_id = ''S1''\<rparr>,
     \<lparr>patient_id = ''P002'', timestamp = ''2024-01-15T09:00:00'', heart_rate = 88,
       blood_pressure_systolic = 141, blood_pressure_diastolic = 82, temperature = Fin 37,
       glucose_level = 120, sensor_id = ''S2''\<rparr>,
     \<lparr>patient_id = ''P003'', timestamp = ''2024-01-15T10:00:00'', heart_rate = 97,
       blood_pressure_systolic = 125, blood_pressure_diastolic = 85, temperature = Fin 38,
       glucose_level = 101, sensor_id = ''S3''\<rparr>] ''avg_glucose'' = Some (Fin m)
        \<and> 95 \<le> m \<and> m \<le> 120)"
proof -
  let ?t = "[\<lparr>patient_id = ''P001'', timestamp = ''2024-01-15T08:00:00'', heart_rate = 72,
       blood_pressure_systolic = 118, blood_pressure_diastolic = 80, temperature = Fin (73 / 2),
       glucose_level = 95, sensor_id = ''S1''\<rparr>,
     \<lparr>patient_id = ''P002'', timestamp = ''2024-01-15T09:00:00'', heart_rate = 88,
       blood_pressure_systolic = 141, blood_pressure_diastolic = 82, temperature = Fin 37,
       glucose_level = 120, sensor_id = ''S2''\<rparr>,
     \<lparr>patient_id = ''P003'', timestamp = ''2024-01-15T10:00:00'', heart_rate = 97,
       blood_pressure_systolic = 125, blood_pressure_diastolic = 85, temperature = Fin 38,
       glucose_level = 101, sensor_id = ''S3''\<rparr>]"
  have p1: "?t \<noteq> []" by simp
  have p2: "length ?t \<le> 2 ^ 22" by simp
  note b = mean_bounds[OF p1 p2]
  have b1: "\<exists>m. calculate_statistics ?t ''avg_heart_rate'' = Some (Fin m) \<and> 72 \<le> m \<and> m \<le> 97"
    using b[THEN conjunct1] by simp
  have b2: "\<exists>m. calculate_statistics ?t ''avg_systolic_bp'' = Some (Fin m) \<and> 118 \<le> m \<and> m \<le> 141"
    using b[THEN conjunct2, THEN conjunct1] by simp
  have b3: "\<exists>m. calculate_statistics ?t ''avg_glucose'' = Some (Fin m) \<and> 95 \<le> m \<and> m \<le> 120"
    using b[THEN conjunct2, THEN conjunct2] by simp
  show ?thesis by (intro conjI) (rule p1 p2 b1 b2 b3)+
qed

text \<open>
  C6 as stated fails on a table of \<open>2 ^ 22 + 1 = 4194305\<close> equal rows with heart rate
  \<open>2147483647\<close> and glucose level \<open>2147483645\<close>: the float64 accumulator of \<^verbatim>\<open>mean\<close>
  rounds the sum of the heart rates up and that of the glucose levels down, so the first
  mean, \<open>2147483647.0000002\<close>, is above the largest value of its column, and the second,
  \<open>2147483644.9999998\<close>, is below the smallest value of its column.
\<close>

theorem mean_bounds_counterexample:
  "(replicate 4194305
       \<lparr>patient_id = ''P001'', timestamp = ''2024-01-15T08:00:00'', heart_rate = 2147483647,
         blood_pressure_systolic = 120, blood_pressure_diastolic = 80, temperature = Fin 37,
         glucose_level = 2147483645, sensor_id = ''S1''\<rparr>) \<noteq> []
   \<and> calculate_statistics
     (replicate 4194305
       \<lparr>patient_id = ''P001'', timestamp = ''2024-01-15T08:00:00'', heart_rate = 2147483647,
         blood_pressure_systolic = 120, blood_pressure_diastolic = 80, temperature = Fin 37,
         glucose_level = 2147483645, sensor_id = ''S1''\<rparr>) ''avg_heart_rate'' = Some (Fin (9007199250546689 / 4194304))
   \<and> Max (sint ` heart_rate ` set
     (replicate 4194305
       \<lparr>patient_id = ''P001'', timestamp = ''2024-01-15T08:00:00'', heart_rate = 2147483647,
         blood_pressure_systolic = 120, blood_pressure_diastolic = 80, temperature = Fin 37,
         glucose_level = 2147483645, sensor_id = ''S1''\<rparr>)) = 2147483647
   \<and> (2147483647 :: rat) < 9007199250546689 / 4194304
   \<and> calculate_statistics
     (replicate 4194305
       \<lparr>patient_id = ''P001'', timestamp = ''2024-01-15T08:00:00'', heart_rate = 2147483647,
         blood_pressure_systolic = 120, blood_pressure_diastolic = 80, temperature = Fin 37,
         glucose_level = 2147483645, sensor_id = ''S1''\<rparr>) ''avg_glucose'' = Some (Fin (9007199242158079 / 4194304))
   \<and> Min (sint ` glucose_level ` set
     (replicate 4194305
       \<lparr>patient_id = ''P001'', timestamp = ''2024-01-15T08:00:00'', heart_rate = 2147483647,
         blood_pressure_systolic = 120, blood_pressure_diastolic = 80, temperature = Fin 37,
         glucose_level = 2147483645, sensor_id = ''S1''\<rparr>)) = 2147483645
   \<and> (9007199242158079 / 4194304 :: rat) < 2147483645"
proof -
  let ?r = "\<lparr>patient_id = ''P001'', timestamp = ''2024-01-15T08:00:00'', heart_rate = 2147483647,
         blood_pressure_systolic = 120, blood_pressure_diastolic = 80, temperature = Fin 37,
         glucose_level = 2147483645, sensor_id = ''S1''\<rparr>"
  have pos: "0 < (4194305 :: nat)" by simp
  have x: "sint (heart_rate ?r) = 2147483647" and y: "sint (glucose_level ?r) = 2147483645"
    by simp_all
  have ne: "replicate 4194305 ?r \<noteq> []" by (simp only: replicate_empty)
  have a: "calculate_statistics (replicate 4194305 ?r) ''avg_heart_rate'' =
      Some (Fin (9007199250546689 / 4194304))"
    unfolding calculate_statistics_lookup map_replicate
    by (simp only: np_mean_2147483647[OF refl x])
  have b: "Max (sint ` heart_rate ` set (replicate 4194305 ?r)) = 2147483647"
    by (simp only: column_replicate_image[OF pos] Max_singleton x)
  have c: "(2147483647 :: rat) < 9007199250546689 / 4194304" by simp
  have d: "calculate_statistics (replicate 4194305 ?r) ''avg_glucose'' =
      Some (Fin (9007199242158079 / 4194304))"
    unfolding calculate_statistics_lookup map_replicate
    by (simp only: np_mean_2147483645[OF refl y])
  have e: "Min (sint ` glucose_level ` set (replicate 4194305 ?r)) = 2147483645"
    by (simp only: column_replicate_image[OF pos] Min_singleton y)
  have f: "(9007199242158079 / 4194304 :: rat) < 2147483645" by simp
  show ?thesis by (intro conjI) (rule ne a b c d e f)+
qed

subsection \<open>The three-row scenario\<close>

lemma np_mean_80_95_100: "np_mean [80, 95, 100] = Fin (6450468216285867 / 70368744177664)"
proof -
  have "f64_round (275 / 3) = Fin (6450468216285867 / 70368744177664)"
    by (subst f64_round_normal[where k = 6]) (simp_all add: round_half_even_numeral)
  then show ?thesis by (simp add: np_mean_exact)
qed

lemma np_mean_120_135_128: "np_mean [120, 135, 128] = Fin (8983743006681771 / 70368744177664)"
proof -
  have "f64_round (383 / 3) = Fin (8983743006681771 / 70368744177664)"
    by (subst f64_round_normal[where k = 6]) (simp_all add: round_half_even_numeral)
  then show ?thesis by (simp add: np_mean_exact)
qed

lemma np_mean_100_115_90: "np_mean [100, 115, 90] = Fin (7154155658062507 / 70368744177664)"
proof -
  have "f64_round (305 / 3) = Fin (7154155658062507 / 70368744177664)"
    by (subst f64_round_normal[where k = 6]) (simp_all add: round_half_even_numeral)
  then show ?thesis by (simp add: np_mean_exact)
qed

lemma format_1f_scenario:
  "format_1f (Fin (6450468216285867 / 70368744177664)) = ''91.7''"
  "format_1f (Fin (8983743006681771 / 70368744177664)) = ''127.7''"
  "format_1f (Fin (7154155658062507 / 70368744177664)) = ''101.7''"
  by (simp_all add: round_half_even_numeral show_nat.simps digit_char_def)

text \<open>
  C9. For a table of three rows with heart_rate = [80, 95, 100], blood_pressure_systolic =
  [120, 135, 128] and glucose_level = [100, 115, 90], the averages print as 91.7, 127.7 and
  101.7, the abnormal counts are 2, 1 and 1, \<^verbatim>\<open>total_readings\<close> is 3, and the report is
  the text below.
\<close>

theorem three_row_scenario:
  assumes "map heart_rate t = [80, 95, 100]"
    and "map blood_pressure_systolic t = [120, 135, 128]"
    and "map glucose_level t = [100, 115, 90]"
  shows "map_option format_1f (calculate_statistics t ''avg_heart_rate'') = Some ''91.7''
       \<and> map_option format_1f (calculate_statistics t ''avg_systolic_bp'') = Some ''127.7''
       \<and> map_option format_1f (calculate_statistics t ''avg_glucose'') = Some ''101.7''
       \<and> find_abnormal_readings t =
           [''high_heart_rate'' \<mapsto> 2, ''high_blood_pressure'' \<mapsto> 1, ''high_glucose'' \<mapsto> 1]
       \<and> total_readings (genfromtxt_squeeze t) = Inr 3
       \<and> generate_report (calculate_statistics t) (find_abnormal_readings t) 3 =
           Inr ''Health Sensor Data Analysis Report\<newline>==================================\<newline>\<newline>Dataset Summary:\<newline>- Total readings: 3\<newline>\<newline>Average Measurements:\<newline>Heart Rate: 91.7 bpm\<newline>Systolic BP: 127.7 mmHg\<newline>Glucose Level: 101.7 mg/dL\<newline>\<newline>Abnormal Readings:\<newline>High Heart Rate (>90): 2 readings\<newline>High Blood Pressure (>130): 1 readings\<newline>High Glucose (>110): 1 readings\<newline>''"
proof -
  have st: "calculate_statistics t =
      [''avg_heart_rate'' \<mapsto> Fin (6450468216285867 / 70368744177664),
       ''avg_systolic_bp'' \<mapsto> Fin (8983743006681771 / 70368744177664),
       ''avg_glucose'' \<mapsto> Fin (7154155658062507 / 70368744177664)]"
    unfolding calculate_statistics_def Let_def assms
      np_mean_80_95_100 np_mean_120_135_128 np_mean_100_115_90 ..
  have ab: "find_abnormal_readings t =
      [''high_heart_rate'' \<mapsto> 2, ''high_blood_pressure'' \<mapsto> 1, ''high_glucose'' \<mapsto> 1]"
    unfolding find_abnormal_readings_def Let_def assms
    by (simp add: np_greater_def np_sum_bool_def)
  have "length (map heart_rate t) = 3" unfolding assms by simp
  then have len: "length t = 3" by simp
  then have "genfromtxt_squeeze t = Array1 t" by (simp add: genfromtxt_squeeze_array1)
  then have tr: "total_readings (genfromtxt_squeeze t) = Inr 3"
    by (simp add: total_readings_def len)
  have rep: "generate_report (calculate_statistics t) (find_abnormal_readings t) 3 =
           Inr ''Health Sensor Data Analysis Report\<newline>==================================\<newline>\<newline>Dataset Summary:\<newline>- Total readings: 3\<newline>\<newline>Average Measurements:\<newline>Heart Rate: 91.7 bpm\<newline>Systolic BP: 127.7 mmHg\<newline>Glucose Level: 101.7 mg/dL\<newline>\<newline>Abnormal Readings:\<newline>High Heart Rate (>90): 2 readings\<newline>High Blood Pressure (>130): 1 readings\<newline>High Glucose (>110): 1 readings\<newline>''"
    unfolding st ab
    by (simp add: generate_report_def getitem_def format_1f_scenario show_int_def
        show_nat.simps digit_char_def del: format_1f.simps)
  have f: "map_option format_1f (calculate_statistics t ''avg_heart_rate'') = Some ''91.7''"
    "map_option format_1f (calculate_statistics t ''avg_systolic_bp'') = Some ''127.7''"
    "map_option format_1f (calculate_statistics t ''avg_glucose'') = Some ''101.7''"
    unfolding st by (simp_all add: format_1f_scenario del: format_1f.simps)
  from f ab tr rep show ?thesis by simp
qed

theorem three_row_scenario_witness:
  "map heart_rate
     [\<lparr>patient_id = ''P001'', timestamp = ''2024-01-15T08:00:00'', heart_rate = 80,
           blood_pressure_systolic = 120, blood_pressure_diastolic = 80, temperature = Fin (73 / 2),
           glucose_level = 100, sensor_id = ''S1''\<rparr>,
         \<lparr>patient_id = ''P002'', timestamp = ''2024-01-15T09:00:00'', heart_rate = 95,
           blood_pressure_systolic = 135, blood_pressure_diastolic = 88, temperature = Fin 37,
           glucose_level = 115, sensor_id = ''S2''\<rparr>,
         \<lparr>patient_id = ''P003'', timestamp = ''2024-01-15T10:00:00'', heart_rate = 100,
           blood_pressure_systolic = 128, blood_pressure_diastolic = 84, temperature = Fin 38,
           glucose_level = 90, sensor_id = ''S3''\<rparr>] = [80, 95, 100]
   \<and> map blood_pressure_systolic
     [\<lparr>patient_id = ''P001'', timestamp = ''2024-01-15T08:00:00'', heart_rate = 80,
           blood_pressure_systolic = 120, blood_pressure_diastolic = 80, temperature = Fin (73 / 2),
           glucose_level = 100, sensor_id = ''S1''\<rparr>,
         \<lparr>patient_id = ''P002'', timestamp = ''2024-01-15T09:00:00'', heart_rate = 95,
           blood_pressure_systolic = 135, blood_pressure_diastolic = 88, temperature = Fin 37,
           glucose_level = 115, sensor_id = ''S2''\<rparr>,
         \<lparr>patient_id = ''P003'', timestamp = ''2024-01-15T10:00:00'', heart_rate = 100,
           blood_pressure_systolic = 128, blood_pressure_diastolic = 84, temperature = Fin 38,
           glucose_level = 90, sensor_id = ''S3''\<rparr>] = [120, 135, 128]
   \<and> map glucose_level
     [\<lparr>patient_id = ''P001'', timestamp = ''2024-01-15T08:00:00'', heart_rate = 80,
           blood_pressure_systolic = 120, blood_pressure_diastolic = 80, temperature = Fin (73 / 2),
           glucose_level = 100, sensor_id = ''S1''\<rparr>,
         \<lparr>patient_id = ''P002'', timestamp = ''2024-01-15T09:00:00'', heart_rate = 95,
           blood_pressure_systolic = 135, blood_pressure_diastolic = 88, temperature = Fin 37,
           glucose_level = 115, sensor_id = ''S2''\<rparr>,
         \<lparr>patient_id = ''P003'', timestamp = ''2024-01-15T10:00:00'', heart_rate = 100,
           blood_pressure_systolic = 128, blood_pressure_diastolic = 84, temperature = Fin 38,
           glucose_level = 90, sensor_id = ''S3''\<rparr>] = [100, 115, 90]
   \<and> map_option format_1f (calculate_statistics
     [\<lparr>patient_id = ''P001'', timestamp = ''2024-01-15T08:00:00'', heart_rate = 80,
           blood_pressure_systolic = 120, blood_pressure_diastolic = 80, temperature = Fin (73 / 2),
           glucose_level = 100, sensor_id = ''S1''\<rparr>,
         \<lparr>patient_id = ''P002'', timestamp = ''2024-01-15T09:00:00'', heart_rate = 95,
           blood_pressure_systolic = 135, blood_pressure_diastolic = 88, temperature = Fin 37,
           glucose_level = 115, sensor_id = ''S2''\<rparr>,
         \<lparr>patient_id = ''P003'', timestamp = ''2024-01-15T10:00:00'', heart_rate = 100,
           blood_pressure_systolic = 128, blood_pressure_diastolic = 84, temperature = Fin 38,
           glucose_level = 90, sensor_id = ''S3''\<rparr>] ''avg_heart_rate'') = Some ''91.7''
   \<and> map_option format_1f (calculate_statistics
     [\<lparr>patient_id = ''P001'', timestamp = ''2024-01-15T08:00:00'', heart_rate = 80,
           blood_pressure_systolic = 120, blood_pressure_diastolic = 80, temperature = Fin (73 / 2),
           glucose_level = 100, sensor_id = ''S1''\<rparr>,
         \<lparr>patient_id = ''P002'', timestamp = ''2024-01-15T09:00:00'', heart_rate = 95,
           blood_pressure_systolic = 135, blood_pressure_diastolic = 88, temperature = Fin 37,
           glucose_level = 115, sensor_id = ''S2''\<rparr>,
         \<lparr>patient_id = ''P003'', timestamp = ''2024-01-15T10:00:00'', heart_rate = 100,
           blood_pressure_systolic = 128, blood_pressure_diastolic = 84, temperature = Fin 38,
           glucose_level = 90, sensor_id = ''S3''\<rparr>] ''avg_systolic_bp'') = Some ''127.7''
   \<and> map_option format_1f (calculate_statistics
     [\<lparr>patient_id = ''P001'', timestamp = ''2024-01-15T08:00:00'', heart_rate = 80,
           blood_pressure_systolic = 120, blood_pressure_diastolic = 80, temperature = Fin (73 / 2),
           glucose_level = 100, sensor_id = ''S1''\<rparr>,
         \<lparr>patient_id = ''P002'', timestamp = ''2024-01-15T09:00:00'', heart_rate = 95,
           blood_pressure_systolic = 135, blood_pressure_diastolic = 88, temperature = Fin 37,
           glucose_level = 115, sensor_id = ''S2''\<rparr>,
         \<lparr>patient_id = ''P003'', timestamp = ''2024-01-15T10:00:00'', heart_rate = 100,
           blood_pressure_systolic = 128, blood_pressure_diastolic = 84, temperature = Fin 38,
           glucose_level = 90, sensor_id = ''S3''\<rparr>] ''avg_glucose'') = Some ''101.7''
   \<and> find_abnormal_readings
     [\<lparr>patient_id = ''P001'', timestamp = ''2024-01-15T08:00:00'', heart_rate = 80,
           blood_pressure_systolic = 120, blood_pressure_diastolic = 80, temperature = Fin (73 / 2),
           glucose_level = 100, sensor_id = ''S1''\<rparr>,
         \<lparr>patient_id = ''P002'', timestamp = ''2024-01-15T09:00:00'', heart_rate = 95,
           blood_pressure_systolic = 135, blood_pressure_diastolic = 88, temperature = Fin 37,
           glucose_level = 115, sensor_id = ''S2''\<rparr>,
         \<lparr>patient_id = ''P003'', timestamp = ''2024-01-15T10:00:00'', heart_rate = 100,
           blood_pressure_systolic = 128, blood_pressure_diastolic = 84, temperature = Fin 38,
           glucose_level = 90, sensor_id = ''S3''\<rparr>] =
       [''high_heart_rate'' \<mapsto> 2, ''high_blood_pressure'' \<mapsto> 1, ''high_glucose'' \<mapsto> 1]
   \<and> total_readings (genfromtxt_squeeze
     [\<lparr>patient_id = ''P001'', timestamp = ''2024-01-15T08:00:00'', heart_rate = 80,
           blood_pressure_systolic = 120, blood_pressure_diastolic = 80, temperature = Fin (73 / 2),
           glucose_level = 100, sensor_id = ''S1''\<rparr>,
         \<lparr>patient_id = ''P002'', timestamp = ''2024-01-15T09:00:00'', heart_rate = 95,
           blood_pressure_systolic = 135, blood_pressure_diastolic = 88, temperature = Fin 37,
           glucose_level = 115, sensor_id = ''S2''\<rparr>,
         \<lparr>patient_id = ''P003'', timestamp = ''2024-01-15T10:00:00'', heart_rate = 100,
           blood_pressure_systolic = 128, blood_pressure_diastolic = 84, temperature = Fin 38,
           glucose_level = 90, sensor_id = ''S3''\<rparr>]) = Inr 3"
  using three_row_scenario
    [of "[\<lparr>patient_id = ''P001'', timestamp = ''2024-01-15T08:00:00'', heart_rate = 80,
           blood_pressure_systolic = 120, blood_pressure_diastolic = 80, temperature = Fin (73 / 2),
           glucose_level = 100, sensor_id = ''S1''\<rparr>,
         \<lparr>patient_id = ''P002'', timestamp = ''2024-01-15T09:00:00'', heart_rate = 95,
           blood_pressure_systolic = 135, blood_pressure_diastolic = 88, temperature = Fin 37,
           glucose_level = 115, sensor_id = ''S2''\<rparr>,
         \<lparr>patient_id = ''P003'', timestamp = ''2024-01-15T10:00:00'', heart_rate = 100,
           blood_pressure_systolic = 128, blood_pressure_diastolic = 84, temperature = Fin 38,
           glucose_level = 90, sensor_id = ''S3''\<rparr>]"]
  by simp

subsection \<open>The report formatter\<close>

lemma is_digit_digit_char: "is_digit (digit_char n)"
  unfolding is_digit_def digit_char_def by (rule nth_mem) simp

lemma is_digit_not_minus: "is_digit c \<Longrightarrow> c \<noteq> CHR ''-''"
  by (auto simp: is_digit_def)

lemma show_nat_digits: "show_nat n \<noteq> [] \<and> list_all is_digit (show_nat n)"
proof (induction n rule: show_nat.induct)
  case (1 n)
  show ?case
  proof (cases "n < 10")
    case True
    then show ?thesis by (subst (1 2) show_nat.simps) (simp add: is_digit_digit_char)
  next
    case False
    with 1 show ?thesis by (subst (1 2) show_nat.simps) (simp add: is_digit_digit_char)
  qed
qed

lemma unsigned_digits: "ds \<noteq> [] \<Longrightarrow> list_all is_digit ds \<Longrightarrow> unsigned (ds @ s) = ds @ s"
  by (cases ds) (auto simp: unsigned_def is_digit_not_minus)

lemma unsigned_minus: "unsigned (CHR ''-'' # s) = s"
  by (simp add: unsigned_def)

lemma plain_integer_show_int: "plain_integer (show_int i)"
proof -
  have u: "unsigned (show_nat k) = show_nat k" for k
    using unsigned_digits[of "show_nat k" "[]"] show_nat_digits[of k] by simp
  show ?thesis
    using show_nat_digits by (simp add: plain_integer_def show_int_def unsigned_minus u)
qed

lemma one_decimal_format_1f: "one_decimal (format_1f (Fin q))"
proof -
  define n where "n = nat (round_half_even (\<bar>q\<bar> * 10))"
  define body where "body = show_nat (n div 10) @ ''.'' @ [digit_char (n mod 10)]"
  have f: "format_1f (Fin q) = (if q < 0 then ''-'' else []) @ body"
    by (simp add: n_def body_def Let_def)
  have u: "unsigned (format_1f (Fin q)) = body"
    unfolding f using unsigned_digits[of "show_nat (n div 10)" "''.'' @ [digit_char (n mod 10)]"]
      show_nat_digits[of "n div 10"]
    by (simp add: unsigned_minus body_def)
  obtain i ds where r: "rev (show_nat (n div 10)) = i # ds"
    using show_nat_digits[of "n div 10"] by (cases "rev (show_nat (n div 10))") auto
  have "list_all is_digit (rev (show_nat (n div 10)))"
    using show_nat_digits[of "n div 10"] by (simp add: list_all_iff)
  then have d: "list_all is_digit (i # ds)" by (simp add: r)
  have "rev body = digit_char (n mod 10) # CHR ''.'' # i # ds"
    by (simp add: body_def r)
  then show ?thesis
    unfolding one_decimal_def u using d by (simp add: is_digit_digit_char)
qed

lemma one_decimal_isfinite: "isfinite v \<Longrightarrow> one_decimal (format_1f v)"
proof (cases v)
  case (Fin q)
  then show ?thesis by (simp only: one_decimal_format_1f)
next
  case NegZero
  then show ?thesis by (simp add: one_decimal_def unsigned_def is_digit_def)
qed simp_all

lemma format_1f_not_finite:
  "\<not> isfinite v \<Longrightarrow>
     (v = NaN \<and> format_1f v = ''nan'') \<or> (v = PInf \<and> format_1f v = ''inf'')
     \<or> (v = NInf \<and> format_1f v = ''-inf'')"
  by (cases v) simp_all

text \<open>
  C3 (as amended). For every Statistics mapping and AbnormalCounts mapping that hold their
  three entries, and every total, \<^verbatim>\<open>generate_report\<close> returns the fixed template byte for
  byte: the header, the section lines and the blank lines in order, ending with a line
  break after the last line; the counts and the total are plain integers; every average
  that is a finite number is printed with exactly one digit after the decimal point; and
  an average that is NaN or infinite is printed as \<^verbatim>\<open>nan\<close>, \<^verbatim>\<open>inf\<close> or \<^verbatim>\<open>-inf\<close>.
\<close>

theorem generate_report_template:
  assumes "stats ''avg_heart_rate'' = Some hr"
    and "stats ''avg_systolic_bp'' = Some bp"
    and "stats ''avg_glucose'' = Some gl"
    and "abnormal ''high_heart_rate'' = Some x"
    and "abnormal ''high_blood_pressure'' = Some y"
    and "abnormal ''high_glucose'' = Some z"
  shows "generate_report stats abnormal n =
      Inr (''Health Sensor Data Analysis Report\<newline>==================================\<newline>\<newline>Dataset Summary:\<newline>- Total readings: ''
           @ show_int n
           @ ''\<newline>\<newline>Average Measurements:\<newline>Heart Rate: '' @ format_1f hr
           @ '' bpm\<newline>Systolic BP: '' @ format_1f bp
           @ '' mmHg\<newline>Glucose Level: '' @ format_1f gl
           @ '' mg/dL\<newline>\<newline>Abnormal Readings:\<newline>High Heart Rate (>90): '' @ show_int x
           @ '' readings\<newline>High Blood Pressure (>130): '' @ show_int y
           @ '' readings\<newline>High Glucose (>110): '' @ show_int z
           @ '' readings\<newline>'')
    \<and> plain_integer (show_int n) \<and> plain_integer (show_int x)
    \<and> plain_integer (show_int y) \<and> plain_integer (show_int z)
    \<and> (isfinite hr \<longrightarrow> one_decimal (format_1f hr))
    \<and> (isfinite bp \<longrightarrow> one_decimal (format_1f bp))
    \<and> (isfinite gl \<longrightarrow> one_decimal (format_1f gl))
    \<and> (\<not> isfinite hr \<longrightarrow>
          (hr = NaN \<and> format_1f hr = ''nan'') \<or> (hr = PInf \<and> format_1f hr = ''inf'')
          \<or> (hr = NInf \<and> format_1f hr = ''-inf''))
    \<and> (\<not> isfinite bp \<longrightarrow>
          (bp = NaN \<and> format_1f bp = ''nan'') \<or> (bp = PInf \<and> format_1f bp = ''inf'')
          \<or> (bp = NInf \<and> format_1f bp = ''-inf''))
    \<and> (\<not> isfinite gl \<longrightarrow>
          (gl = NaN \<and> format_1f gl = ''nan'') \<or> (gl = PInf \<and> format_1f gl = ''inf'')
          \<or> (gl = NInf \<and> format_1f gl = ''-inf''))"
proof -
  have "generate_report stats abnormal n =
      Inr (''Health Sensor Data Analysis Report\<newline>==================================\<newline>\<newline>Dataset Summary:\<newline>- Total readings: ''
           @ show_int n
           @ ''\<newline>\<newline>Average Measurements:\<newline>Heart Rate: '' @ format_1f hr
           @ '' bpm\<newline>Systolic BP: '' @ format_1f bp
           @ '' mmHg\<newline>Glucose Level: '' @ format_1f gl
           @ '' mg/dL\<newline>\<newline>Abnormal Readings:\<newline>High Heart Rate (>90): '' @ show_int x
           @ '' readings\<newline>High Blood Pressure (>130): '' @ show_int y
           @ '' readings\<newline>High Glucose (>110): '' @ show_int z
           @ '' readings\<newline>'')"
    by (simp add: generate_report_def getitem_def assms)
  moreover have "isfinite v \<longrightarrow> one_decimal (format_1f v)" for v
    by (rule impI) (rule one_decimal_isfinite)
  moreover have "\<not> isfinite v \<longrightarrow>
          (v = NaN \<and> format_1f v = ''nan'') \<or> (v = PInf \<and> format_1f v = ''inf'')
          \<or> (v = NInf \<and> format_1f v = ''-inf'')" for v
    by (rule impI) (rule format_1f_not_finite)
  ultimately show ?thesis
    by (intro conjI) (rule plain_integer_show_int | assumption)+
qed

lemma format_1f_examples:
  "format_1f (Fin (145 / 2)) = ''72.5''"
  "format_1f (Fin 120) = ''120.0''"
  "format_1f (Fin (399 / 4)) = ''99.8''"
  by (simp_all add: round_half_even_numeral round_half_even_whole show_nat.simps digit_char_def)

theorem generate_report_template_witness:
  "generate_report
     [''avg_heart_rate'' \<mapsto> Fin (145 / 2), ''avg_systolic_bp'' \<mapsto> Fin 120,
      ''avg_glucose'' \<mapsto> Fin (399 / 4)]
     [''high_heart_rate'' \<mapsto> 0, ''high_blood_pressure'' \<mapsto> 12, ''high_glucose'' \<mapsto> 3] 40 =
   Inr ''Health Sensor Data Analysis Report\<newline>==================================\<newline>\<newline>Dataset Summary:\<newline>- Total readings: 40\<newline>\<newline>Average Measurements:\<newline>Heart Rate: 72.5 bpm\<newline>Systolic BP: 120.0 mmHg\<newline>Glucose Level: 99.8 mg/dL\<newline>\<newline>Abnormal Readings:\<newline>High Heart Rate (>90): 0 readings\<newline>High Blood Pressure (>130): 12 readings\<newline>High Glucose (>110): 3 readings\<newline>''
   \<and> one_decimal ''72.5'' \<and> one_decimal ''120.0'' \<and> one_decimal ''99.8''
   \<and> generate_report
     [''avg_heart_rate'' \<mapsto> NaN, ''avg_systolic_bp'' \<mapsto> PInf, ''avg_glucose'' \<mapsto> NInf]
     [''high_heart_rate'' \<mapsto> 1, ''high_blood_pressure'' \<mapsto> 2, ''high_glucose'' \<mapsto> 0] 7 =
   Inr ''Health Sensor Data Analysis Report\<newline>==================================\<newline>\<newline>Dataset Summary:\<newline>- Total readings: 7\<newline>\<newline>Average Measurements:\<newline>Heart Rate: nan bpm\<newline>Systolic BP: inf mmHg\<newline>Glucose Level: -inf mg/dL\<newline>\<newline>Abnormal Readings:\<newline>High Heart Rate (>90): 1 readings\<newline>High Blood Pressure (>130): 2 readings\<newline>High Glucose (>110): 0 readings\<newline>''"
proof -
  have s: "show_int 40 = ''40''" "show_int 0 = ''0''" "show_int 12 = ''12''" "show_int 3 = ''3''"
    "show_int 7 = ''7''" "show_int 1 = ''1''" "show_int 2 = ''2''"
    by (simp_all add: show_int_def show_nat.simps digit_char_def)
  have a: "generate_report
     [''avg_heart_rate'' \<mapsto> Fin (145 / 2), ''avg_systolic_bp'' \<mapsto> Fin 120,
      ''avg_glucose'' \<mapsto> Fin (399 / 4)]
     [''high_heart_rate'' \<mapsto> 0, ''high_blood_pressure'' \<mapsto> 12, ''high_glucose'' \<mapsto> 3] 40 =
   Inr ''Health Sensor Data Analysis Report\<newline>==================================\<newline>\<newline>Dataset Summary:\<newline>- Total readings: 40\<newline>\<newline>Average Measurements:\<newline>Heart Rate: 72.5 bpm\<newline>Systolic BP: 120.0 mmHg\<newline>Glucose Level: 99.8 mg/dL\<newline>\<newline>Abnormal Readings:\<newline>High Heart Rate (>90): 0 readings\<newline>High Blood Pressure (>130): 12 readings\<newline>High Glucose (>110): 3 readings\<newline>''
   \<and> one_decimal ''72.5'' \<and> one_decimal ''120.0'' \<and> one_decimal ''99.8''"
    using generate_report_template
      [of "[''avg_heart_rate'' \<mapsto> Fin (145 / 2), ''avg_systolic_bp'' \<mapsto> Fin 120,
            ''avg_glucose'' \<mapsto> Fin (399 / 4)]"
          "Fin (145 / 2)" "Fin 120" "Fin (399 / 4)"
          "[''high_heart_rate'' \<mapsto> 0, ''high_blood_pressure'' \<mapsto> 12, ''high_glucose'' \<mapsto> 3]"
          0 12 3 40]
    unfolding format_1f_examples s by simp
  have b: "generate_report
     [''avg_heart_rate'' \<mapsto> NaN, ''avg_systolic_bp'' \<mapsto> PInf, ''avg_glucose'' \<mapsto> NInf]
     [''high_heart_rate'' \<mapsto> 1, ''high_blood_pressure'' \<mapsto> 2, ''high_glucose'' \<mapsto> 0] 7 =
   Inr ''Health Sensor Data Analysis Report\<newline>==================================\<newline>\<newline>Dataset Summary:\<newline>- Total readings: 7\<newline>\<newline>Average Measurements:\<newline>Heart Rate: nan bpm\<newline>Systolic BP: inf mmHg\<newline>Glucose Level: -inf mg/dL\<newline>\<newline>Abnormal Readings:\<newline>High Heart Rate (>90): 1 readings\<newline>High Blood Pressure (>130): 2 readings\<newline>High Glucose (>110): 0 readings\<newline>''"
    using generate_report_template
      [of "[''avg_heart_rate'' \<mapsto> NaN, ''avg_systolic_bp'' \<mapsto> PInf, ''avg_glucose'' \<mapsto> NInf]"
          NaN PInf NInf
          "[''high_heart_rate'' \<mapsto> 1, ''high_blood_pressure'' \<mapsto> 2, ''high_glucose'' \<mapsto> 0]"
          1 2 0 7]
    unfolding s by simp
  from a b show ?thesis by (intro conjI) (elim conjE, assumption)+
qed

text \<open>
  C3 as stated fails on the statistics of the empty table: the three averages are NaN
  and are printed as \<^verbatim>\<open>nan\<close>, which has no digit after a decimal point.
\<close>

theorem generate_report_nan_counterexample:
  "calculate_statistics [] ''avg_heart_rate'' = Some NaN
   \<and> format_1f NaN = ''nan''
   \<and> \<not> one_decimal (format_1f NaN)
   \<and> total_readings (genfromtxt_squeeze []) = Inr 0
   \<and> generate_report (calculate_statistics []) (find_abnormal_readings []) 0 =
       Inr ''Health Sensor Data Analysis Report\<newline>==================================\<newline>\<newline>Dataset Summary:\<newline>- Total readings: 0\<newline>\<newline>Average Measurements:\<newline>Heart Rate: nan bpm\<newline>Systolic BP: nan mmHg\<newline>Glucose Level: nan mg/dL\<newline>\<newline>Abnormal Readings:\<newline>High Heart Rate (>90): 0 readings\<newline>High Blood Pressure (>130): 0 readings\<newline>High Glucose (>110): 0 readings\<newline>''"
proof -
  have "np_mean [] = NaN" by (simp add: np_mean_exact)
  then have st: "calculate_statistics [] =
     [''avg_heart_rate'' \<mapsto> NaN, ''avg_systolic_bp'' \<mapsto> NaN, ''avg_glucose'' \<mapsto> NaN]"
    by (simp add: calculate_statistics_def)
  have ab: "find_abnormal_readings [] =
     [''high_heart_rate'' \<mapsto> 0, ''high_blood_pressure'' \<mapsto> 0, ''high_glucose'' \<mapsto> 0]"
    by (simp add: find_abnormal_readings_def np_greater_def np_sum_bool_def)
  have tr: "total_readings (genfromtxt_squeeze []) = Inr 0"
    by (simp add: total_readings_def genfromtxt_squeeze_def)
  have s0: "show_int 0 = ''0''" by (simp add: show_int_def show_nat.simps digit_char_def)
  have od: "\<not> one_decimal (format_1f NaN)"
    by (simp add: one_decimal_def unsigned_def is_digit_def)
  have rep: "generate_report (calculate_statistics []) (find_abnormal_readings []) 0 =
       Inr ''Health Sensor Data Analysis Report\<newline>==================================\<newline>\<newline>Dataset Summary:\<newline>- Total readings: 0\<newline>\<newline>Average Measurements:\<newline>Heart Rate: nan bpm\<newline>Systolic BP: nan mmHg\<newline>Glucose Level: nan mg/dL\<newline>\<newline>Abnormal Readings:\<newline>High Heart Rate (>90): 0 readings\<newline>High Blood Pressure (>130): 0 readings\<newline>High Glucose (>110): 0 readings\<newline>''"
    unfolding st ab by (simp add: generate_report_def getitem_def s0)
  from od rep tr show ?thesis by (simp add: st)
qed

subsection \<open>Determinism and the frame of the two functions\<close>

lemma read_view_rows:
  "a < length h \<Longrightarrow> h ! a = Rows t \<Longrightarrow> read_view h (View a f) = Inr (map f t)"
  by (simp add: read_view_def)

lemma mean_mem_rows:
  "a < length h \<Longrightarrow> h ! a = Rows t \<Longrightarrow> mean_mem (View a f) h = Inr (np_mean (map f t), h)"
  by (simp add: mean_mem_def read_view_rows)

lemma count_above_mem_rows:
  "a < length h \<Longrightarrow> h ! a = Rows t \<Longrightarrow>
   count_above_mem (View a f) c h =
     Inr (np_sum_bool (np_greater (map f t) c), h @ [Bools (np_greater (map f t) c)])"
  by (simp add: count_above_mem_def greater_mem_def sum_mem_def read_view_rows)

lemma calculate_statistics_mem_rows:
  assumes "a < length h" "h ! a = Rows t"
  shows "calculate_statistics_mem a h = Inr (calculate_statistics t, h)"
  by (simp add: calculate_statistics_mem_def mean_mem_rows[OF assms] calculate_statistics_def)

lemma find_abnormal_readings_mem_rows:
  assumes "a < length h" "h ! a = Rows t"
  shows "find_abnormal_readings_mem a h =
     Inr (find_abnormal_readings t,
          h @ [Bools (np_greater (map heart_rate t) 90),
               Bools (np_greater (map blood_pressure_systolic t) 130),
               Bools (np_greater (map glucose_level t) 110)])"
proof -
  have 1: "a < length (h @ xs)" "(h @ xs) ! a = Rows t" for xs
    using assms by (simp_all add: nth_append)
  show ?thesis
    unfolding find_abnormal_readings_mem_def
    by (simp add: count_above_mem_rows[OF assms] count_above_mem_rows[OF 1]
        find_abnormal_readings_def)
qed

text \<open>
  C7. Given the same table, two runs of \<^verbatim>\<open>calculate_statistics\<close>, and two runs of
  \<^verbatim>\<open>find_abnormal_readings\<close>, return the same output, whatever else the memory holds and
  wherever the table lies in it; in particular a second run after the first one. The
  output is the one the functions compute from the rows of the table.
\<close>

theorem runs_deterministic:
  assumes "a < length h" and "h ! a = Rows t"
    and "a' < length h'" and "h' ! a' = Rows t"
  shows "(\<exists>st h1 h1'. calculate_statistics_mem a h = Inr (st, h1)
            \<and> calculate_statistics_mem a' h' = Inr (st, h1')
            \<and> calculate_statistics_mem a h1 = Inr (st, h1)
            \<and> st = calculate_statistics t)
       \<and> (\<exists>ab h2 h2' h3. find_abnormal_readings_mem a h = Inr (ab, h2)
            \<and> find_abnormal_readings_mem a' h' = Inr (ab, h2')
            \<and> find_abnormal_readings_mem a h2 = Inr (ab, h3)
            \<and> ab = find_abnormal_readings t)"
proof -
  let ?new = "[Bools (np_greater (map heart_rate t) 90),
               Bools (np_greater (map blood_pressure_systolic t) 130),
               Bools (np_greater (map glucose_level t) 110)]"
  have again: "a < length (h @ ?new)" "(h @ ?new) ! a = Rows t"
    using assms(1,2) by (simp_all add: nth_append)
  show ?thesis
    by (simp add: calculate_statistics_mem_rows[OF assms(1,2)]
        calculate_statistics_mem_rows[OF assms(3,4)]
        find_abnormal_readings_mem_rows[OF assms(1,2)]
        find_abnormal_readings_mem_rows[OF assms(3,4)]
        find_abnormal_readings_mem_rows[OF again])
qed

theorem runs_deterministic_witness:
  "(0::nat) < length [Rows [\<lparr>patient_id = ''P001'', timestamp = ''2024-01-15T08:00:00'', heart_rate = 96,
          blood_pressure_systolic = 128, blood_pressure_diastolic = 80,
          temperature = Fin (73 / 2), glucose_level = 111, sensor_id = ''S1''\<rparr>]]
   \<and> [Rows [\<lparr>patient_id = ''P001'', timestamp = ''2024-01-15T08:00:00'', heart_rate = 96,
          blood_pressure_systolic = 128, blood_pressure_diastolic = 80,
          temperature = Fin (73 / 2), glucose_level = 111, sensor_id = ''S1''\<rparr>]] ! 0 = Rows [\<lparr>patient_id = ''P001'', timestamp = ''2024-01-15T08:00:00'', heart_rate = 96,
          blood_pressure_systolic = 128, blood_pressure_diastolic = 80,
          temperature = Fin (73 / 2), glucose_level = 111, sensor_id = ''S1''\<rparr>]
   \<and> (1::nat) < length [Bools [True, False], Rows [\<lparr>patient_id = ''P001'', timestamp = ''2024-01-15T08:00:00'', heart_rate = 96,
          blood_pressure_systolic = 128, blood_pressure_diastolic = 80,
          temperature = Fin (73 / 2), glucose_level = 111, sensor_id = ''S1''\<rparr>]]
   \<and> [Bools [True, False], Rows [\<lparr>patient_id = ''P001'', timestamp = ''2024-01-15T08:00:00'', heart_rate = 96,
          blood_pressure_systolic = 128, blood_pressure_diastolic = 80,
          temperature = Fin (73 / 2), glucose_level = 111, sensor_id = ''S1''\<rparr>]] ! 1 = Rows [\<lparr>patient_id = ''P001'', timestamp = ''2024-01-15T08:00:00'', heart_rate = 96,
          blood_pressure_systolic = 128, blood_pressure_diastolic = 80,
          temperature = Fin (73 / 2), glucose_level = 111, sensor_id = ''S1''\<rparr>]
   \<and> ((\<exists>st h1 h1'. calculate_statistics_mem 0 [Rows [\<lparr>patient_id = ''P001'', timestamp = ''2024-01-15T08:00:00'', heart_rate = 96,
          blood_pressure_systolic = 128, blood_pressure_diastolic = 80,
          temperature = Fin (73 / 2), glucose_level = 111, sensor_id = ''S1''\<rparr>]] = Inr (st, h1)
         \<and> calculate_statistics_mem 1 [Bools [True, False], Rows [\<lparr>patient_id = ''P001'', timestamp = ''2024-01-15T08:00:00'', heart_rate = 96,
          blood_pressure_systolic = 128, blood_pressure_diastolic = 80,
          temperature = Fin (73 / 2), glucose_level = 111, sensor_id = ''S1''\<rparr>]] = Inr (st, h1')
         \<and> calculate_statistics_mem 0 h1 = Inr (st, h1)
         \<and> st = calculate_statistics [\<lparr>patient_id = ''P001'', timestamp = ''2024-01-15T08:00:00'', heart_rate = 96,
          blood_pressure_systolic = 128, blood_pressure_diastolic = 80,
          temperature = Fin (73 / 2), glucose_level = 111, sensor_id = ''S1''\<rparr>])
      \<and> (\<exists>ab h2 h2' h3. find_abnormal_readings_mem 0 [Rows [\<lparr>patient_id = ''P001'', timestamp = ''2024-01-15T08:00:00'', heart_rate = 96,
          blood_pressure_systolic = 128, blood_pressure_diastolic = 80,
          temperature = Fin (73 / 2), glucose_level = 111, sensor_id = ''S1''\<rparr>]] = Inr (ab, h2)
         \<and> find_abnormal_readings_mem 1 [Bools [True, False], Rows [\<lparr>patient_id = ''P001'', timestamp = ''2024-01-15T08:00:00'', heart_rate = 96,
          blood_pressure_systolic = 128, blood_pressure_diastolic = 80,
          temperature = Fin (73 / 2), glucose_level = 111, sensor_id = ''S1''\<rparr>]] = Inr (ab, h2')
         \<and> find_abnormal_readings_mem 0 h2 = Inr (ab, h3)
         \<and> ab = find_abnormal_readings [\<lparr>patient_id = ''P001'', timestamp = ''2024-01-15T08:00:00'', heart_rate = 96,
          blood_pressure_systolic = 128, blood_pressure_diastolic = 80,
          temperature = Fin (73 / 2), glucose_level = 111, sensor_id = ''S1''\<rparr>]))"
proof -
  have p1: "(0::nat) < length [Rows [\<lparr>patient_id = ''P001'', timestamp = ''2024-01-15T08:00:00'', heart_rate = 96,
          blood_pressure_systolic = 128, blood_pressure_diastolic = 80,
          temperature = Fin (73 / 2), glucose_level = 111, sensor_id = ''S1''\<rparr>]]"
    by simp
  have p2: "[Rows [\<lparr>patient_id = ''P001'', timestamp = ''2024-01-15T08:00:00'', heart_rate = 96,
          blood_pressure_systolic = 128, blood_pressure_diastolic = 80,
          temperature = Fin (73 / 2), glucose_level = 111, sensor_id = ''S1''\<rparr>]] ! 0 = Rows [\<lparr>patient_id = ''P001'', timestamp = ''2024-01-15T08:00:00'', heart_rate = 96,
          blood_pressure_systolic = 128, blood_pressure_diastolic = 80,
          temperature = Fin (73 / 2), glucose_level = 111, sensor_id = ''S1''\<rparr>]"
    by simp
  have p3: "(1::nat) < length [Bools [True, False], Rows [\<lparr>patient_id = ''P001'', timestamp = ''2024-01-15T08:00:00'', heart_rate = 96,
          blood_pressure_systolic = 128, blood_pressure_diastolic = 80,
          temperature = Fin (73 / 2), glucose_level = 111, sensor_id = ''S1''\<rparr>]]"
    by simp
  have p4: "[Bools [True, False], Rows [\<lparr>patient_id = ''P001'', timestamp = ''2024-01-15T08:00:00'', heart_rate = 96,
          blood_pressure_systolic = 128, blood_pressure_diastolic = 80,
          temperature = Fin (73 / 2), glucose_level = 111, sensor_id = ''S1''\<rparr>]] ! 1 = Rows [\<lparr>patient_id = ''P001'', timestamp = ''2024-01-15T08:00:00'', heart_rate = 96,
          blood_pressure_systolic = 128, blood_pressure_diastolic = 80,
          temperature = Fin (73 / 2), glucose_level = 111, sensor_id = ''S1''\<rparr>]"
    by simp
  show ?thesis
    by (intro conjI) (rule p1 p2 p3 p4 runs_deterministic[OF p1 p2 p3 p4, THEN conjunct1]
        runs_deterministic[OF p1 p2 p3 p4, THEN conjunct2])+
qed

text \<open>
  C8. Running \<^verbatim>\<open>calculate_statistics\<close> and then \<^verbatim>\<open>find_abnormal_readings\<close> on a table
  leaves every buffer that was in memory as it was, the table with all its rows and
  fields among them: the first changes nothing at all, the second only adds its own
  boolean arrays.
\<close>

theorem table_unchanged:
  assumes "a < length h" and "h ! a = Rows t"
  shows "\<exists>st ab h'. calculate_statistics_mem a h = Inr (st, h)
           \<and> find_abnormal_readings_mem a h = Inr (ab, h')
           \<and> take (length h) h' = h \<and> h' ! a = Rows t"
  using assms
  by (simp add: calculate_statistics_mem_rows[OF assms] find_abnormal_readings_mem_rows[OF assms]
      nth_append)

theorem table_unchanged_witness:
  "(1::nat) < length [Bools [False], Rows [\<lparr>patient_id = ''P001'', timestamp = ''2024-01-15T08:00:00'', heart_rate = 96,
          blood_pressure_systolic = 128, blood_pressure_diastolic = 80,
          temperature = Fin (73 / 2), glucose_level = 111, sensor_id = ''S1''\<rparr>]]
   \<and> [Bools [False], Rows [\<lparr>patient_id = ''P001'', timestamp = ''2024-01-15T08:00:00'', heart_rate = 96,
          blood_pressure_systolic = 128, blood_pressure_diastolic = 80,
          temperature = Fin (73 / 2), glucose_level = 111, sensor_id = ''S1''\<rparr>]] ! 1 = Rows [\<lparr>patient_id = ''P001'', timestamp = ''2024-01-15T08:00:00'', heart_rate = 96,
          blood_pressure_systolic = 128, blood_pressure_diastolic = 80,
          temperature = Fin (73 / 2), glucose_level = 111, sensor_id = ''S1''\<rparr>]
   \<and> (\<exists>st ab h'. calculate_statistics_mem 1 [Bools [False], Rows [\<lparr>patient_id = ''P001'', timestamp = ''2024-01-15T08:00:00'', heart_rate = 96,
          blood_pressure_systolic = 128, blood_pressure_diastolic = 80,
          temperature = Fin (73 / 2), glucose_level = 111, sensor_id = ''S1''\<rparr>]] =
           Inr (st, [Bools [False], Rows [\<lparr>patient_id = ''P001'', timestamp = ''2024-01-15T08:00:00'', heart_rate = 96,
          blood_pressure_systolic = 128, blood_pressure_diastolic = 80,
          temperature = Fin (73 / 2), glucose_level = 111, sensor_id = ''S1''\<rparr>]])
         \<and> find_abnormal_readings_mem 1 [Bools [False], Rows [\<lparr>patient_id = ''P001'', timestamp = ''2024-01-15T08:00:00'', heart_rate = 96,
          blood_pressure_systolic = 128, blood_pressure_diastolic = 80,
          temperature = Fin (73 / 2), glucose_level = 111, sensor_id = ''S1''\<rparr>]] = Inr (ab, h')
         \<and> take (length [Bools [False], Rows [\<lparr>patient_id = ''P001'', timestamp = ''2024-01-15T08:00:00'', heart_rate = 96,
          blood_pressure_systolic = 128, blood_pressure_diastolic = 80,
          temperature = Fin (73 / 2), glucose_level = 111, sensor_id = ''S1''\<rparr>]]) h' = [Bools [False], Rows [\<lparr>patient_id = ''P001'', timestamp = ''2024-01-15T08:00:00'', heart_rate = 96,
          blood_pressure_systolic = 128, blood_pressure_diastolic = 80,
          temperature = Fin (73 / 2), glucose_level = 111, sensor_id = ''S1''\<rparr>]]
         \<and> h' ! 1 = Rows [\<lparr>patient_id = ''P001'', timestamp = ''2024-01-15T08:00:00'', heart_rate = 96,
          blood_pressure_systolic = 128, blood_pressure_diastolic = 80,
          temperature = Fin (73 / 2), glucose_level = 111, sensor_id = ''S1''\<rparr>])"
proof -
  have p1: "(1::nat) < length [Bools [False], Rows [\<lparr>patient_id = ''P001'', timestamp = ''2024-01-15T08:00:00'', heart_rate = 96,
          blood_pressure_systolic = 128, blood_pressure_diastolic = 80,
          temperature = Fin (73 / 2), glucose_level = 111, sensor_id = ''S1''\<rparr>]]"
    by simp
  have p2: "[Bools [False], Rows [\<lparr>patient_id = ''P001'', timestamp = ''2024-01-15T08:00:00'', heart_rate = 96,
          blood_pressure_systolic = 128, blood_pressure_diastolic = 80,
          temperature = Fin (73 / 2), glucose_level = 111, sensor_id = ''S1''\<rparr>]] ! 1 = Rows [\<lparr>patient_id = ''P001'', timestamp = ''2024-01-15T08:00:00'', heart_rate = 96,
          blood_pressure_systolic = 128, blood_pressure_diastolic = 80,
          temperature = Fin (73 / 2), glucose_level = 111, sensor_id = ''S1''\<rparr>]"
    by simp
  show ?thesis
    by (intro conjI) (rule p1 p2 table_unchanged[OF p1 p2])+
qed

subsection \<open>The report writer\<close>

lemma dirname_no_slash: "CHR ''/'' \<notin> set p \<Longrightarrow> dirname p = []"
proof -
  assume "CHR ''/'' \<notin> set p"
  then have "\<forall>c\<in>set (rev p). c \<noteq> CHR ''/''" by auto
  then have "dropWhile (\<lambda>c. c \<noteq> CHR ''/'') (rev p) = []" by (simp only: dropWhile_eq_Nil_conv)
  then show ?thesis by (simp add: dirname_def)
qed

lemma makedirs_empty: "makedirs [] exist_ok fs = (Some (FileNotFoundError []), fs)"
proof -
  have s: "makedirs_split [] = ([], [])"
    by (simp add: makedirs_split_def path_split_def)
  have m: "mkdir [] fs = Inl (FileNotFoundError [])" by (simp add: mkdir_def)
  have d: "\<not> isdir fs []" by (simp add: isdir_def stat_def)
  show ?thesis
    by (subst makedirs.simps) (simp add: s makedirs_leaf_def m d)
qed

text \<open>
  C10. For a filename without a slash, \<^verbatim>\<open>dirname\<close> is the empty string and
  \<^verbatim>\<open>save_report\<close> raises the \<^verbatim>\<open>FileNotFoundError\<close> of \<^verbatim>\<open>os.makedirs('')\<close>, whatever the
  file system holds, and writes nothing; so whenever it returns without an exception, the
  filename has a slash.
\<close>

theorem save_report_bare_filename:
  "(CHR ''/'' \<notin> set filename \<longrightarrow>
      dirname filename = [] \<and> save_report report filename fs = (Some (FileNotFoundError []), fs))
   \<and> (fst (save_report report filename fs) = None \<longrightarrow> CHR ''/'' \<in> set filename)"
proof -
  have bare: "dirname filename = [] \<and> save_report report filename fs = (Some (FileNotFoundError []), fs)"
    if "CHR ''/'' \<notin> set filename"
    using dirname_no_slash[OF that] by (simp add: save_report_def makedirs_empty)
  then show ?thesis by fastforce
qed

text \<open>The run of \<^verbatim>\<open>main\<close>: the directory \<^verbatim>\<open>output\<close> is missing and is made.\<close>

lemma dirname_output: "dirname ''output/analysis_report.txt'' = ''output''"
  by (simp add: dirname_def rstrip_slash_def)

lemma makedirs_output:
  "makedirs ''output'' True \<lparr>nodes = [[] \<mapsto> Dir, [''work''] \<mapsto> Dir], cwd = [''work'']\<rparr> =
     (None, \<lparr>nodes = [[] \<mapsto> Dir, [''work''] \<mapsto> Dir, [''work'', ''output''] \<mapsto> Dir],
        cwd = [''work'']\<rparr>)"
  by (subst makedirs.simps)
     (simp add: makedirs_split_def path_split_def makedirs_leaf_def mkdir_def start_def step_def)

lemma write_text_output:
  "write_text ''output/analysis_report.txt'' ''Report''
     \<lparr>nodes = [[] \<mapsto> Dir, [''work''] \<mapsto> Dir, [''work'', ''output''] \<mapsto> Dir],
        cwd = [''work'']\<rparr> =
   Inr \<lparr>nodes = [[] \<mapsto> Dir, [''work''] \<mapsto> Dir, [''work'', ''output''] \<mapsto> Dir,
                  [''work'', ''output'', ''analysis_report.txt''] \<mapsto> File ''Report''],
        cwd = [''work'']\<rparr>"
  by (simp add: write_text_def start_def step_def)

theorem save_report_bare_filename_witness:
  "CHR ''/'' \<notin> set ''report.txt''
   \<and> save_report ''Report'' ''report.txt'' \<lparr>nodes = [[] \<mapsto> Dir, [''work''] \<mapsto> Dir], cwd = [''work'']\<rparr> =
       (Some (FileNotFoundError []), \<lparr>nodes = [[] \<mapsto> Dir, [''work''] \<mapsto> Dir], cwd = [''work'']\<rparr>)
   \<and> save_report ''Report'' ''output/analysis_report.txt'' \<lparr>nodes = [[] \<mapsto> Dir, [''work''] \<mapsto> Dir], cwd = [''work'']\<rparr> =
       (None, \<lparr>nodes = [[] \<mapsto> Dir, [''work''] \<mapsto> Dir, [''work'', ''output''] \<mapsto> Dir,
                  [''work'', ''output'', ''analysis_report.txt''] \<mapsto> File ''Report''],
        cwd = [''work'']\<rparr>)
   \<and> CHR ''/'' \<in> set ''output/analysis_report.txt''"
proof -
  have a: "CHR ''/'' \<notin> set ''report.txt''" by simp
  have b: "save_report ''Report'' ''output/analysis_report.txt'' \<lparr>nodes = [[] \<mapsto> Dir, [''work''] \<mapsto> Dir], cwd = [''work'']\<rparr> =
       (None, \<lparr>nodes = [[] \<mapsto> Dir, [''work''] \<mapsto> Dir, [''work'', ''output''] \<mapsto> Dir,
                  [''work'', ''output'', ''analysis_report.txt''] \<mapsto> File ''Report''],
        cwd = [''work'']\<rparr>)"
    by (simp add: save_report_def dirname_output makedirs_output write_text_output)
  have c: "save_report ''Report'' ''report.txt'' \<lparr>nodes = [[] \<mapsto> Dir, [''work''] \<mapsto> Dir], cwd = [''work'']\<rparr> =
       (Some (FileNotFoundError []), \<lparr>nodes = [[] \<mapsto> Dir, [''work''] \<mapsto> Dir], cwd = [''work'']\<rparr>)"
    using save_report_bare_filename
      [of "''report.txt''" "''Report''" "\<lparr>nodes = [[] \<mapsto> Dir, [''work''] \<mapsto> Dir], cwd = [''work'']\<rparr>"] a
    by blast
  have d: "CHR ''/'' \<in> set ''output/analysis_report.txt''"
    using save_report_bare_filename
      [of "''output/analysis_report.txt''" "''Report''" "\<lparr>nodes = [[] \<mapsto> Dir, [''work''] \<mapsto> Dir], cwd = [''work'']\<rparr>"] b
    by simp
  from a b c d show ?thesis by blast
qed

end
